theory Spec2Isabelle
  imports Main "HOL-Library.Word"
begin

section \<open>The triple-buffered frame capture of the video-callback examples\<close>

text \<open>
  Both examples (\<^verbatim>\<open>glfw_sample.cpp\<close> and \<^verbatim>\<open>sdl_opengl.cpp\<close>) define a class
  \<^verbatim>\<open>FrameCapture\<close> with the same fields and almost the same methods.  The methods that
  differ between the two files take the backend as a parameter; \<^verbatim>\<open>getNextFrame\<close> and
  \<^verbatim>\<open>onSetup\<close> are the same text in both.
\<close>

datatype backend = GLFW | SDL

type_synonym GLuint = "32 word"
type_synonym GLenum = "32 word"
type_synonym GLint = "32 word"
type_synonym uint32_t = "32 word"

subsection \<open>Failures\<close>

text \<open>
  \<^verbatim>\<open>std::array::at\<close> throws \<^verbatim>\<open>std::out_of_range\<close>; \<^verbatim>\<open>exit(EXIT_FAILURE)\<close> and a failed
  \<^verbatim>\<open>assert\<close> end the process.  A method returns its outcome together with the state it
  left behind, since the writes made before a throw stay in the object.
\<close>

datatype error = out_of_range | exit_failure | assertion_failed

subsection \<open>\<^verbatim>\<open>std::array<GLuint, 3>\<close>\<close>

datatype array3 = Array3 GLuint GLuint GLuint

fun array_at :: "array3 \<Rightarrow> uint32_t \<Rightarrow> error + GLuint" where
  "array_at (Array3 a b c) i =
     (if i = 0 then Inr a else if i = 1 then Inr b else if i = 2 then Inr c
      else Inl out_of_range)"

fun array_data :: "array3 \<Rightarrow> GLuint list" where
  "array_data (Array3 a b c) = [a, b, c]"

subsection \<open>The OpenGL context\<close>

text \<open>
  OpenGL is an external library.  The context is an explicit store: the texture objects
  and framebuffer objects by name, the two bindings the class uses (\<^verbatim>\<open>GL_TEXTURE_2D\<close> and
  \<^verbatim>\<open>GL_FRAMEBUFFER\<close>, the only targets in the source, so the target arguments are left
  out), and the error flag read by \<^verbatim>\<open>glGetError\<close>.  The commands are modelled on their
  successful path: none of them raises the error flag, which holds whatever an earlier
  command of the media engine left there.  What the driver alone decides (the names that
  \<^verbatim>\<open>glGenTextures\<close> and \<^verbatim>\<open>glGenFramebuffers\<close> hand out, the framebuffer status) is an
  input of the callback, see \<open>driver_reply\<close>.
\<close>

definition GL_NO_ERROR :: GLenum where "GL_NO_ERROR = 0"
definition GL_RGBA :: GLenum where "GL_RGBA = 0x1908"
definition GL_TEXTURE_WRAP_S :: GLenum where "GL_TEXTURE_WRAP_S = 0x2802"
definition GL_TEXTURE_WRAP_T :: GLenum where "GL_TEXTURE_WRAP_T = 0x2803"
definition GL_TEXTURE_MIN_FILTER :: GLenum where "GL_TEXTURE_MIN_FILTER = 0x2801"
definition GL_TEXTURE_MAG_FILTER :: GLenum where "GL_TEXTURE_MAG_FILTER = 0x2800"
definition GL_CLAMP_TO_EDGE :: GLint where "GL_CLAMP_TO_EDGE = 0x812F"
definition GL_LINEAR :: GLint where "GL_LINEAR = 0x2601"
definition GL_FRAMEBUFFER_COMPLETE :: GLenum where "GL_FRAMEBUFFER_COMPLETE = 0x8CD5"

record texture_object =
  tex_image :: "(GLenum \<times> uint32_t \<times> uint32_t) option"
    \<comment> \<open>level 0: internal format, width, height; \<open>None\<close> before \<^verbatim>\<open>glTexImage2D\<close>\<close>
  tex_params :: "GLenum \<rightharpoonup> GLint"

definition new_texture :: texture_object where
  "new_texture = \<lparr>tex_image = None, tex_params = Map.empty\<rparr>"

record gl_state =
  gl_textures :: "GLuint \<rightharpoonup> texture_object"
  gl_framebuffers :: "GLuint \<rightharpoonup> GLuint"
    \<comment> \<open>framebuffer name to the texture at \<^verbatim>\<open>GL_COLOR_ATTACHMENT0\<close>, 0 for none\<close>
  gl_texture_binding :: GLuint
  gl_framebuffer_binding :: GLuint
  gl_error :: GLenum

definition bound_texture :: "gl_state \<Rightarrow> texture_object" where
  "bound_texture g =
     (case gl_textures g (gl_texture_binding g) of None \<Rightarrow> new_texture | Some t \<Rightarrow> t)"

text \<open>\<^verbatim>\<open>glGenTextures(n, ptr)\<close>: the names the driver chose become names in use.\<close>

definition glGenTextures :: "GLuint list \<Rightarrow> gl_state \<Rightarrow> gl_state" where
  "glGenTextures names g =
     g\<lparr>gl_textures := fold (\<lambda>n m. m(n \<mapsto> new_texture)) names (gl_textures g)\<rparr>"

definition glGenFramebuffers :: "GLuint list \<Rightarrow> gl_state \<Rightarrow> gl_state" where
  "glGenFramebuffers names g =
     g\<lparr>gl_framebuffers := fold (\<lambda>n m. m(n \<mapsto> 0)) names (gl_framebuffers g)\<rparr>"

text \<open>Binding a name with no object yet creates the object.\<close>

definition glBindTexture :: "GLuint \<Rightarrow> gl_state \<Rightarrow> gl_state" where
  "glBindTexture name g =
     g\<lparr>gl_textures :=
         (if gl_textures g name = None then (gl_textures g)(name \<mapsto> new_texture)
          else gl_textures g),
       gl_texture_binding := name\<rparr>"

definition glTexImage2D :: "GLenum \<Rightarrow> uint32_t \<Rightarrow> uint32_t \<Rightarrow> gl_state \<Rightarrow> gl_state" where
  "glTexImage2D internalformat w h g =
     g\<lparr>gl_textures := (gl_textures g)(gl_texture_binding g \<mapsto>
         (bound_texture g)\<lparr>tex_image := Some (internalformat, w, h)\<rparr>)\<rparr>"

definition glTexParameteri :: "GLenum \<Rightarrow> GLint \<Rightarrow> gl_state \<Rightarrow> gl_state" where
  "glTexParameteri pname param g =
     g\<lparr>gl_textures := (gl_textures g)(gl_texture_binding g \<mapsto>
         (bound_texture g)\<lparr>tex_params := (tex_params (bound_texture g))(pname \<mapsto> param)\<rparr>)\<rparr>"

text \<open>Name 0 is the window-system framebuffer: it is no framebuffer object.\<close>

definition glBindFramebuffer :: "GLuint \<Rightarrow> gl_state \<Rightarrow> gl_state" where
  "glBindFramebuffer name g =
     g\<lparr>gl_framebuffers :=
         (if name = 0 \<or> gl_framebuffers g name \<noteq> None then gl_framebuffers g
          else (gl_framebuffers g)(name \<mapsto> 0)),
       gl_framebuffer_binding := name\<rparr>"

definition glFramebufferTexture2D :: "GLuint \<Rightarrow> gl_state \<Rightarrow> gl_state" where
  "glFramebufferTexture2D texture g =
     (if gl_framebuffer_binding g = 0 then g
      else g\<lparr>gl_framebuffers := (gl_framebuffers g)(gl_framebuffer_binding g \<mapsto> texture)\<rparr>)"

text \<open>
  Deleting ignores 0 and names with no object.  A deleted texture that is bound leaves the
  binding at 0 and is detached from the framebuffer that is bound; a deleted framebuffer
  that is bound leaves the binding at 0.
\<close>

definition delete_texture :: "GLuint \<Rightarrow> gl_state \<Rightarrow> gl_state" where
  "delete_texture name g =
     (if name = 0 \<or> gl_textures g name = None then g
      else g\<lparr>gl_textures := (gl_textures g)(name := None),
             gl_framebuffers :=
               (if gl_framebuffers g (gl_framebuffer_binding g) = Some name
                then (gl_framebuffers g)(gl_framebuffer_binding g \<mapsto> 0)
                else gl_framebuffers g),
             gl_texture_binding :=
               (if gl_texture_binding g = name then 0 else gl_texture_binding g)\<rparr>)"

definition glDeleteTextures :: "GLuint list \<Rightarrow> gl_state \<Rightarrow> gl_state" where
  "glDeleteTextures names g = fold delete_texture names g"

definition delete_framebuffer :: "GLuint \<Rightarrow> gl_state \<Rightarrow> gl_state" where
  "delete_framebuffer name g =
     (if name = 0 \<or> gl_framebuffers g name = None then g
      else g\<lparr>gl_framebuffers := (gl_framebuffers g)(name := None),
             gl_framebuffer_binding :=
               (if gl_framebuffer_binding g = name then 0 else gl_framebuffer_binding g)\<rparr>)"

definition glDeleteFramebuffers :: "GLuint list \<Rightarrow> gl_state \<Rightarrow> gl_state" where
  "glDeleteFramebuffers names g = fold delete_framebuffer names g"

text \<open>\<^verbatim>\<open>glGetError\<close> returns the flag and resets it.\<close>

definition glGetError :: "gl_state \<Rightarrow> GLenum \<times> gl_state" where
  "glGetError g = (gl_error g, g\<lparr>gl_error := GL_NO_ERROR\<rparr>)"

subsection \<open>The class \<^verbatim>\<open>FrameCapture\<close>\<close>

text \<open>
  The fields, with the trailing underscore of the source dropped.  The window and context
  handles are used by \<^verbatim>\<open>onMakeCurrent\<close> and \<^verbatim>\<open>onGetProcAddress\<close> only, which are calls into
  the windowing library and are not modelled.
\<close>

record FrameCapture =
  fbos :: array3
  textures :: array3
  frame_render_id :: uint32_t
  frame_swap_id :: uint32_t
  frame_present_id :: uint32_t
  frame_width :: uint32_t
  frame_height :: uint32_t
  frame_acquired :: bool

text \<open>What the process writes to \<^verbatim>\<open>std::cerr\<close>, one value per message.\<close>

datatype log_event =
  SizeChanged uint32_t uint32_t
  | IncompleteFbo
  | GLErrorMessage GLenum
  | DebugLine nat

record world =
  capture :: FrameCapture
  gl :: gl_state
  stderr :: "log_event list"

text \<open>
  The constructors.  The SDL class value-initialises both arrays (\<^verbatim>\<open>fbos_{}\<close>,
  \<^verbatim>\<open>textures_{}\<close>); the GLFW class leaves them uninitialised, so their first contents are
  parameters (ignored for SDL).
\<close>

definition new_FrameCapture :: "backend \<Rightarrow> array3 \<Rightarrow> array3 \<Rightarrow> FrameCapture" where
  "new_FrameCapture b fbos0 textures0 =
     \<lparr>fbos = (if b = SDL then Array3 0 0 0 else fbos0),
      textures = (if b = SDL then Array3 0 0 0 else textures0),
      frame_render_id = 0, frame_swap_id = 1, frame_present_id = 2,
      frame_width = 0, frame_height = 0, frame_acquired = False\<rparr>"

definition initial_world :: "backend \<Rightarrow> array3 \<Rightarrow> array3 \<Rightarrow> gl_state \<Rightarrow> world" where
  "initial_world b fbos0 textures0 g =
     \<lparr>capture = new_FrameCapture b fbos0 textures0, gl = g, stderr = []\<rparr>"

text \<open>
  \<^verbatim>\<open>getNextFrame\<close> (the same in both files).  The mutex is held for the whole body, as it
  is in \<^verbatim>\<open>onSwap\<close>, so each of the two is one atomic step.
\<close>

definition getNextFrame :: "FrameCapture \<Rightarrow> (error + GLuint) \<times> FrameCapture" where
  "getNextFrame s =
     (let s1 = (if frame_acquired s
                then s\<lparr>frame_present_id := frame_swap_id s,
                       frame_swap_id := frame_present_id s,
                       frame_acquired := False\<rparr>
                else s)
      in (array_at (textures s1) (frame_present_id s1), s1))"

text \<open>
  The GLFW file's \<^verbatim>\<open>checkGLError\<close> returns inside the first round of its loop, so it
  reads the error flag once; \<^verbatim>\<open>CHECK_GL_ERRORS()\<close> then prints the line number.
\<close>

definition checkGLError :: "world \<Rightarrow> bool \<times> world" where
  "checkGLError w =
     (case glGetError (gl w) of (err, g) \<Rightarrow>
        if err \<noteq> GL_NO_ERROR
        then (True, w\<lparr>gl := g, stderr := stderr w @ [GLErrorMessage err]\<rparr>)
        else (False, w\<lparr>gl := g\<rparr>))"

definition CHECK_GL_ERRORS_glfw :: "nat \<Rightarrow> world \<Rightarrow> world" where
  "CHECK_GL_ERRORS_glfw line w =
     (case checkGLError w of (failed, w1) \<Rightarrow>
        if failed then w1\<lparr>stderr := stderr w1 @ [DebugLine line]\<rparr> else w1)"

text \<open>The SDL file's \<^verbatim>\<open>CHECK_GL_ERRORS()\<close> is \<^verbatim>\<open>assert(glGetError() == GL_NO_ERROR)\<close>.\<close>

definition CHECK_GL_ERRORS_sdl :: "world \<Rightarrow> (error + unit) \<times> world" where
  "CHECK_GL_ERRORS_sdl w =
     (case glGetError (gl w) of (err, g) \<Rightarrow>
        if err = GL_NO_ERROR then (Inr (), w\<lparr>gl := g\<rparr>)
        else (Inl assertion_failed, w\<lparr>gl := g\<rparr>))"

definition onSetup :: "world \<Rightarrow> bool \<times> world" where
  "onSetup w = (True, w\<lparr>capture := (capture w)\<lparr>frame_width := 0, frame_height := 0\<rparr>\<rparr>)"

definition onCleanup :: "backend \<Rightarrow> world \<Rightarrow> world" where
  "onCleanup b w =
     (let s = capture w;
          w1 = (if 0 < frame_width s \<and> 0 < frame_height s
                then w\<lparr>gl := glDeleteFramebuffers (array_data (fbos s))
                               (glDeleteTextures (array_data (textures s)) (gl w))\<rparr>
                else w)
      in if b = GLFW then CHECK_GL_ERRORS_glfw 134 w1 else w1)"

definition onSwap :: "backend \<Rightarrow> world \<Rightarrow> (error + unit) \<times> world" where
  "onSwap b w =
     (let s = capture w;
          s1 = s\<lparr>frame_render_id := frame_swap_id s, frame_swap_id := frame_render_id s\<rparr>
      in case array_at (fbos s1) (frame_render_id s1) of
           Inl e \<Rightarrow> (Inl e, w\<lparr>capture := s1\<rparr>)
         | Inr fbo \<Rightarrow>
             (let w2 = w\<lparr>capture := s1\<lparr>frame_acquired := True\<rparr>,
                         gl := glBindFramebuffer fbo (gl w)\<rparr>
              in (Inr (), if b = GLFW then CHECK_GL_ERRORS_glfw 188 w2 else w2)))"

subsection \<open>Output negotiation\<close>

text \<open>
  The enumerations and the two configuration structures of the libVLC header, an external
  library.  Of \<^verbatim>\<open>libvlc_video_render_cfg_t\<close> the class reads the width and the height
  only.
\<close>

datatype libvlc_video_color_space_t =
  libvlc_video_colorspace_BT601 | libvlc_video_colorspace_BT709
  | libvlc_video_colorspace_BT2020

datatype libvlc_video_color_primaries_t =
  libvlc_video_primaries_BT601_525 | libvlc_video_primaries_BT601_625
  | libvlc_video_primaries_BT709 | libvlc_video_primaries_BT2020
  | libvlc_video_primaries_DCI_P3 | libvlc_video_primaries_BT470_M

datatype libvlc_video_transfer_func_t =
  libvlc_video_transfer_func_LINEAR | libvlc_video_transfer_func_SRGB
  | libvlc_video_transfer_func_BT470_BG | libvlc_video_transfer_func_BT470_M
  | libvlc_video_transfer_func_BT709 | libvlc_video_transfer_func_PQ
  | libvlc_video_transfer_func_SMPTE_240 | libvlc_video_transfer_func_HLG

datatype libvlc_video_orient_t =
  libvlc_video_orient_top_left | libvlc_video_orient_top_right
  | libvlc_video_orient_bottom_left | libvlc_video_orient_bottom_right
  | libvlc_video_orient_left_top | libvlc_video_orient_left_bottom
  | libvlc_video_orient_right_top | libvlc_video_orient_right_bottom

record libvlc_video_render_cfg_t =
  width :: uint32_t
  height :: uint32_t

record libvlc_video_output_cfg_t =
  opengl_format :: GLenum
  full_range :: bool
  colorspace :: libvlc_video_color_space_t
  primaries :: libvlc_video_color_primaries_t
  transfer :: libvlc_video_transfer_func_t
  orientation :: libvlc_video_orient_t

text \<open>
  What the driver answers during one \<^verbatim>\<open>onUpdateOutput\<close>: the three names written by
  \<^verbatim>\<open>glGenTextures\<close>, the three written by \<^verbatim>\<open>glGenFramebuffers\<close>, and the value of
  \<^verbatim>\<open>glCheckFramebufferStatus\<close>.
\<close>

record driver_reply =
  gen_textures :: array3
  gen_framebuffers :: array3
  framebuffer_status :: GLenum

text \<open>
  OpenGL's contract for generated names: not 0, pairwise distinct, and not in use.
\<close>

definition fresh_names :: "GLuint list \<Rightarrow> GLuint set \<Rightarrow> bool" where
  "fresh_names names used = (distinct names \<and> 0 \<notin> set names \<and> set names \<inter> used = {})"

definition gl_contract :: "gl_state \<Rightarrow> driver_reply \<Rightarrow> bool" where
  "gl_contract g reply =
     (fresh_names (array_data (gen_textures reply)) (dom (gl_textures g)) \<and>
      fresh_names (array_data (gen_framebuffers reply)) (dom (gl_framebuffers g)))"

text \<open>The body of the loop over the three slots, without the SDL file's check.\<close>

definition surface_body :: "uint32_t \<Rightarrow> uint32_t \<Rightarrow> GLuint \<Rightarrow> GLuint \<Rightarrow> gl_state \<Rightarrow> gl_state" where
  "surface_body fw fh tex fbo g =
     glFramebufferTexture2D tex
       (glBindFramebuffer fbo
         (glTexParameteri GL_TEXTURE_MAG_FILTER GL_LINEAR
           (glTexParameteri GL_TEXTURE_MIN_FILTER GL_LINEAR
             (glTexParameteri GL_TEXTURE_WRAP_T GL_CLAMP_TO_EDGE
               (glTexParameteri GL_TEXTURE_WRAP_S GL_CLAMP_TO_EDGE
                 (glTexImage2D GL_RGBA fw fh
                   (glBindTexture tex g)))))))"

fun surface_loop ::
  "backend \<Rightarrow> uint32_t \<Rightarrow> uint32_t \<Rightarrow> (GLuint \<times> GLuint) list \<Rightarrow> world \<Rightarrow> (error + unit) \<times> world"
where
  "surface_loop b fw fh [] w = (Inr (), w)"
| "surface_loop b fw fh ((tex, fbo) # rest) w =
     (let w1 = w\<lparr>gl := surface_body fw fh tex fbo (gl w)\<rparr>
      in if b = SDL
         then (case CHECK_GL_ERRORS_sdl w1 of
                 (Inl e, w2) \<Rightarrow> (Inl e, w2)
               | (Inr _, w2) \<Rightarrow> surface_loop b fw fh rest w2)
         else surface_loop b fw fh rest w1)"

text \<open>
  The assignments under \<^verbatim>\<open>// [required]\<close>.  The SDL file has no assignment to
  \<^verbatim>\<open>out->orientation\<close>.
\<close>

definition required_output ::
  "backend \<Rightarrow> libvlc_video_output_cfg_t \<Rightarrow> libvlc_video_output_cfg_t" where
  "required_output b out =
     (let out1 = out\<lparr>opengl_format := GL_RGBA, full_range := True,
                     colorspace := libvlc_video_colorspace_BT709,
                     primaries := libvlc_video_primaries_BT709,
                     transfer := libvlc_video_transfer_func_SRGB\<rparr>
      in if b = GLFW then out1\<lparr>orientation := libvlc_video_orient_top_left\<rparr> else out1)"

text \<open>
  After the status check: the GLFW file binds the render framebuffer and then checks for
  errors; the SDL file checks first and then binds.
\<close>

definition bind_render_target ::
  "backend \<Rightarrow> libvlc_video_output_cfg_t \<Rightarrow> world \<Rightarrow>
   (error + bool \<times> libvlc_video_output_cfg_t) \<times> world" where
  "bind_render_target b out w =
     (if b = GLFW
      then (case array_at (fbos (capture w)) (frame_render_id (capture w)) of
              Inl e \<Rightarrow> (Inl e, w)
            | Inr fbo \<Rightarrow>
                (Inr (True, required_output b out),
                 CHECK_GL_ERRORS_glfw 170 (w\<lparr>gl := glBindFramebuffer fbo (gl w)\<rparr>)))
      else (case CHECK_GL_ERRORS_sdl w of
              (Inl e, w1) \<Rightarrow> (Inl e, w1)
            | (Inr _, w1) \<Rightarrow>
                (case array_at (fbos (capture w1)) (frame_render_id (capture w1)) of
                   Inl e \<Rightarrow> (Inl e, w1)
                 | Inr fbo \<Rightarrow>
                     (Inr (True, required_output b out),
                      w1\<lparr>gl := glBindFramebuffer fbo (gl w1)\<rparr>))))"

definition onUpdateOutput ::
  "backend \<Rightarrow> libvlc_video_render_cfg_t \<Rightarrow> libvlc_video_output_cfg_t \<Rightarrow> driver_reply \<Rightarrow>
   world \<Rightarrow> (error + bool \<times> libvlc_video_output_cfg_t) \<times> world" where
  "onUpdateOutput b cfg out reply w =
     (let s = capture w;
          w1 = (if frame_width s \<noteq> width cfg \<or> frame_height s \<noteq> height cfg
                then w\<lparr>stderr := stderr w @ [SizeChanged (width cfg) (height cfg)]\<rparr>
                else w);
          s1 = s\<lparr>textures := gen_textures reply, fbos := gen_framebuffers reply,
                 frame_width := width cfg, frame_height := height cfg\<rparr>;
          w2 = w1\<lparr>capture := s1,
                  gl := glGenFramebuffers (array_data (fbos s1))
                          (glGenTextures (array_data (textures s1)) (gl w1))\<rparr>
      in case surface_loop b (frame_width s1) (frame_height s1)
                (zip (array_data (textures s1)) (array_data (fbos s1))) w2 of
           (Inl e, w3) \<Rightarrow> (Inl e, w3)
         | (Inr _, w3) \<Rightarrow>
             (let w4 = w3\<lparr>gl := glBindTexture 0 (gl w3)\<rparr>
              in if framebuffer_status reply \<noteq> GL_FRAMEBUFFER_COMPLETE
                 then (Inl exit_failure, w4\<lparr>stderr := stderr w4 @ [IncompleteFbo]\<rparr>)
                 else bind_render_target b out w4))"

subsection \<open>Sequences of calls\<close>

text \<open>
  The decoder thread's callbacks and the display thread's \<^verbatim>\<open>getNextFrame\<close>, in the order
  in which they take effect.  A run stops at the first failure.
\<close>

datatype call =
  GetNextFrame
  | OnSetup
  | OnCleanup
  | OnUpdateOutput libvlc_video_render_cfg_t libvlc_video_output_cfg_t driver_reply
  | OnSwap

fun failure :: "error + 'a \<Rightarrow> error option" where
  "failure (Inl e) = Some e"
| "failure (Inr _) = None"

fun step :: "backend \<Rightarrow> call \<Rightarrow> world \<Rightarrow> error option \<times> world" where
  "step b GetNextFrame w =
     (case getNextFrame (capture w) of (r, s) \<Rightarrow> (failure r, w\<lparr>capture := s\<rparr>))"
| "step b OnSetup w = (None, snd (onSetup w))"
| "step b OnCleanup w = (None, onCleanup b w)"
| "step b (OnUpdateOutput cfg out reply) w =
     (case onUpdateOutput b cfg out reply w of (r, w1) \<Rightarrow> (failure r, w1))"
| "step b OnSwap w = (case onSwap b w of (r, w1) \<Rightarrow> (failure r, w1))"

fun run :: "backend \<Rightarrow> call list \<Rightarrow> world \<Rightarrow> error option \<times> world" where
  "run b [] w = (None, w)"
| "run b (c # cs) w =
     (case step b c w of
        (Some e, w1) \<Rightarrow> (Some e, w1)
      | (None, w1) \<Rightarrow> run b cs w1)"

text \<open>The three role indices are the three slots, each once.\<close>

definition roles :: "FrameCapture \<Rightarrow> uint32_t list" where
  "roles s = [frame_render_id s, frame_swap_id s, frame_present_id s]"

definition roles_permutation :: "FrameCapture \<Rightarrow> bool" where
  "roles_permutation s = (distinct (roles s) \<and> set (roles s) = {0, 1, 2})"

subsection \<open>Concrete inputs\<close>

text \<open>An empty context, two negotiated sizes, an output descriptor and two driver replies.\<close>

definition gl0 :: gl_state where
  "gl0 = \<lparr>gl_textures = Map.empty, gl_framebuffers = Map.empty, gl_texture_binding = 0,
          gl_framebuffer_binding = 0, gl_error = 0\<rparr>"

definition cfg_640x480 :: libvlc_video_render_cfg_t where
  "cfg_640x480 = \<lparr>width = 640, height = 480\<rparr>"

definition cfg_1280x720 :: libvlc_video_render_cfg_t where
  "cfg_1280x720 = \<lparr>width = 1280, height = 720\<rparr>"

definition out0 :: libvlc_video_output_cfg_t where
  "out0 = \<lparr>opengl_format = 0, full_range = False,
           colorspace = libvlc_video_colorspace_BT601,
           primaries = libvlc_video_primaries_BT601_525,
           transfer = libvlc_video_transfer_func_LINEAR,
           orientation = libvlc_video_orient_bottom_left\<rparr>"

definition reply_123 :: driver_reply where
  "reply_123 = \<lparr>gen_textures = Array3 1 2 3, gen_framebuffers = Array3 1 2 3,
                framebuffer_status = GL_FRAMEBUFFER_COMPLETE\<rparr>"

definition reply_456 :: driver_reply where
  "reply_456 = \<lparr>gen_textures = Array3 4 5 6, gen_framebuffers = Array3 4 5 6,
                framebuffer_status = GL_FRAMEBUFFER_COMPLETE\<rparr>"

text \<open>The lifecycle start of the SDL example, and the same after one negotiation.\<close>

definition sdl_start :: world where
  "sdl_start = snd (onSetup (initial_world SDL (Array3 0 0 0) (Array3 0 0 0) gl0))"

definition sdl_allocated :: world where
  "sdl_allocated = snd (onUpdateOutput SDL cfg_640x480 out0 reply_123 sdl_start)"

subsection \<open>The parts of \<^verbatim>\<open>onUpdateOutput\<close>\<close>

text \<open>
  Names for the consecutive parts of \<^verbatim>\<open>onUpdateOutput\<close>, used in the proofs: the size
  message, the generation of names with the four assignments, and what follows the loop.
\<close>

definition log_size_change :: "libvlc_video_render_cfg_t \<Rightarrow> world \<Rightarrow> world" where
  "log_size_change cfg w =
     (if frame_width (capture w) \<noteq> width cfg \<or> frame_height (capture w) \<noteq> height cfg
      then w\<lparr>stderr := stderr w @ [SizeChanged (width cfg) (height cfg)]\<rparr>
      else w)"

definition generate_names :: "libvlc_video_render_cfg_t \<Rightarrow> driver_reply \<Rightarrow> world \<Rightarrow> world" where
  "generate_names cfg reply w =
     w\<lparr>capture := (capture w)\<lparr>textures := gen_textures reply, fbos := gen_framebuffers reply,
                 frame_width := width cfg, frame_height := height cfg\<rparr>,
       gl := glGenFramebuffers (array_data (gen_framebuffers reply))
               (glGenTextures (array_data (gen_textures reply)) (gl w))\<rparr>"

definition after_loop ::
  "backend \<Rightarrow> libvlc_video_output_cfg_t \<Rightarrow> driver_reply \<Rightarrow> (error + unit) \<times> world \<Rightarrow>
   (error + bool \<times> libvlc_video_output_cfg_t) \<times> world" where
  "after_loop b out reply looped =
     (case looped of
        (Inl e, w3) \<Rightarrow> (Inl e, w3)
      | (Inr _, w3) \<Rightarrow>
          (let w4 = w3\<lparr>gl := glBindTexture 0 (gl w3)\<rparr>
           in if framebuffer_status reply \<noteq> GL_FRAMEBUFFER_COMPLETE
              then (Inl exit_failure, w4\<lparr>stderr := stderr w4 @ [IncompleteFbo]\<rparr>)
              else bind_render_target b out w4))"

definition slot_pairs :: "driver_reply \<Rightarrow> (GLuint \<times> GLuint) list" where
  "slot_pairs reply = zip (array_data (gen_textures reply)) (array_data (gen_framebuffers reply))"

fun is_size_changed :: "log_event \<Rightarrow> bool" where
  "is_size_changed (SizeChanged _ _) = True"
| "is_size_changed _ = False"

text \<open>
  The SDL example after one published frame; then renegotiated at another size; and the
  allocated ring negotiated once more at the size it has.
\<close>

definition sdl_published :: world where
  "sdl_published = snd (onSwap SDL sdl_allocated)"

definition sdl_reallocated :: world where
  "sdl_reallocated = snd (onUpdateOutput SDL cfg_1280x720 out0 reply_456 sdl_published)"

definition sdl_allocated_again :: world where
  "sdl_allocated_again = snd (onUpdateOutput SDL cfg_640x480 out0 reply_456 sdl_allocated)"

subsection \<open>Notions used in the statements\<close>

text \<open>The resources of the context: the objects and the bindings, without the error flag.\<close>

definition gl_resources ::
  "gl_state \<Rightarrow> (GLuint \<rightharpoonup> texture_object) \<times> (GLuint \<rightharpoonup> GLuint) \<times> GLuint \<times> GLuint" where
  "gl_resources g =
     (gl_textures g, gl_framebuffers g, gl_texture_binding g, gl_framebuffer_binding g)"

text \<open>\<^verbatim>\<open>getNextFrame\<close> as a step of the whole state.\<close>

definition acquire :: "world \<Rightarrow> (error + GLuint) \<times> world" where
  "acquire w = (fst (getNextFrame (capture w)), w\<lparr>capture := snd (getNextFrame (capture w))\<rparr>)"

text \<open>The texture of the slot the decoder is rendering into.\<close>

definition render_texture :: "world \<Rightarrow> error + GLuint" where
  "render_texture w = array_at (textures (capture w)) (frame_render_id (capture w))"

text \<open>The roles and the flag as the constructor sets them.\<close>

definition fresh_ring :: "FrameCapture \<Rightarrow> bool" where
  "fresh_ring s = (frame_render_id s = 0 \<and> frame_swap_id s = 1 \<and> frame_present_id s = 2
     \<and> \<not> frame_acquired s)"

section \<open>Properties\<close>

subsection \<open>What each method leaves alone\<close>

lemma CHECK_GL_ERRORS_glfw_capture [simp]:
  "capture (CHECK_GL_ERRORS_glfw n w) = capture w"
  by (simp add: CHECK_GL_ERRORS_glfw_def checkGLError_def glGetError_def)

lemma CHECK_GL_ERRORS_sdl_capture [simp]:
  "capture (snd (CHECK_GL_ERRORS_sdl w)) = capture w"
  by (simp add: CHECK_GL_ERRORS_sdl_def glGetError_def)

lemma surface_loop_capture [simp]:
  "capture (snd (surface_loop b fw fh ps w)) = capture w"
proof (induction ps arbitrary: w)
  case Nil
  show ?case by simp
next
  case (Cons p ps)
  obtain tex fbo where p: "p = (tex, fbo)" by (cases p)
  let ?w1 = "w\<lparr>gl := surface_body fw fh tex fbo (gl w)\<rparr>"
  show ?case
  proof (cases "b = SDL")
    case False
    then show ?thesis using Cons.IH [of ?w1] by (simp add: p Let_def)
  next
    case True
    obtain r w2 where c: "CHECK_GL_ERRORS_sdl ?w1 = (r, w2)"
      by (cases "CHECK_GL_ERRORS_sdl ?w1")
    have w2: "capture w2 = capture w"
      using CHECK_GL_ERRORS_sdl_capture [of ?w1] by (simp add: c)
    show ?thesis using True Cons.IH [of w2] w2
      by (cases r) (simp_all add: p Let_def c)
  qed
qed

lemma bind_render_target_capture [simp]:
  "capture (snd (bind_render_target b out w)) = capture w"
proof (cases "b = GLFW")
  case True
  then show ?thesis by (simp add: bind_render_target_def split: sum.split)
next
  case False
  obtain r w1 where c: "CHECK_GL_ERRORS_sdl w = (r, w1)" by (cases "CHECK_GL_ERRORS_sdl w")
  have "capture w1 = capture w" using CHECK_GL_ERRORS_sdl_capture [of w] by (simp add: c)
  then show ?thesis using False by (simp add: bind_render_target_def c split: sum.split)
qed

text \<open>What \<^verbatim>\<open>onUpdateOutput\<close> writes to the object, whatever its outcome.\<close>

lemma onUpdateOutput_capture:
  "capture (snd (onUpdateOutput b cfg out reply w)) =
     (capture w)\<lparr>textures := gen_textures reply, fbos := gen_framebuffers reply,
                 frame_width := width cfg, frame_height := height cfg\<rparr>"
proof -
  let ?s1 = "(capture w)\<lparr>textures := gen_textures reply, fbos := gen_framebuffers reply,
                 frame_width := width cfg, frame_height := height cfg\<rparr>"
  let ?w1 = "(if frame_width (capture w) \<noteq> width cfg \<or> frame_height (capture w) \<noteq> height cfg
                then w\<lparr>stderr := stderr w @ [SizeChanged (width cfg) (height cfg)]\<rparr>
                else w)"
  let ?w2 = "?w1\<lparr>capture := ?s1,
                  gl := glGenFramebuffers (array_data (fbos ?s1))
                          (glGenTextures (array_data (textures ?s1)) (gl ?w1))\<rparr>"
  let ?loop = "surface_loop b (frame_width ?s1) (frame_height ?s1)
                (zip (array_data (textures ?s1)) (array_data (fbos ?s1))) ?w2"
  obtain r w3 where l: "?loop = (r, w3)" by (cases ?loop)
  have w3: "capture w3 = ?s1"
    using surface_loop_capture [of b "frame_width ?s1" "frame_height ?s1"
        "zip (array_data (textures ?s1)) (array_data (fbos ?s1))" ?w2]
    by (simp only: l snd_conv) simp
  have u: "onUpdateOutput b cfg out reply w =
      (case ?loop of
           (Inl e, w3) \<Rightarrow> (Inl e, w3)
         | (Inr _, w3) \<Rightarrow>
             (let w4 = w3\<lparr>gl := glBindTexture 0 (gl w3)\<rparr>
              in if framebuffer_status reply \<noteq> GL_FRAMEBUFFER_COMPLETE
                 then (Inl exit_failure, w4\<lparr>stderr := stderr w4 @ [IncompleteFbo]\<rparr>)
                 else bind_render_target b out w4))"
    by (simp only: onUpdateOutput_def Let_def)
  show ?thesis
    by (cases r) (simp_all only: u l w3 Let_def, simp_all add: w3)
qed

lemma onCleanup_capture [simp]: "capture (onCleanup b w) = capture w"
  by (simp add: onCleanup_def Let_def)

subsection \<open>The role indices stay a permutation\<close>

lemma getNextFrame_roles_permutation:
  "roles_permutation s \<Longrightarrow> roles_permutation (snd (getNextFrame s))"
  by (auto simp: getNextFrame_def roles_permutation_def roles_def Let_def)

lemma onSwap_roles_permutation:
  "roles_permutation (capture w) \<Longrightarrow> roles_permutation (capture (snd (onSwap b w)))"
  by (auto simp: onSwap_def roles_permutation_def roles_def Let_def split: sum.split)

lemma step_roles_permutation:
  "roles_permutation (capture w) \<Longrightarrow> roles_permutation (capture (snd (step b c w)))"
proof (cases c)
  case GetNextFrame
  assume "roles_permutation (capture w)"
  then show ?thesis using getNextFrame_roles_permutation [of "capture w"]
    by (simp add: GetNextFrame case_prod_beta)
next
  case OnSetup
  assume "roles_permutation (capture w)"
  then show ?thesis by (simp add: OnSetup onSetup_def roles_permutation_def roles_def)
next
  case OnCleanup
  assume "roles_permutation (capture w)"
  then show ?thesis by (simp add: OnCleanup)
next
  case (OnUpdateOutput cfg out reply)
  assume "roles_permutation (capture w)"
  then show ?thesis using onUpdateOutput_capture [of b cfg out reply w]
    by (simp add: OnUpdateOutput roles_permutation_def roles_def case_prod_beta)
next
  case OnSwap
  assume "roles_permutation (capture w)"
  then show ?thesis using onSwap_roles_permutation [of w b]
    by (simp add: OnSwap case_prod_beta)
qed

lemma run_roles_permutation:
  "roles_permutation (capture w) \<Longrightarrow> roles_permutation (capture (snd (run b cs w)))"
proof (induction cs arbitrary: w)
  case Nil
  then show ?case by simp
next
  case (Cons c cs)
  obtain r w1 where s: "step b c w = (r, w1)" by (cases "step b c w")
  have w1: "roles_permutation (capture w1)"
    using step_roles_permutation [OF Cons.prems, of b c] by (simp add: s)
  show ?case
  proof (cases r)
    case None
    then show ?thesis using Cons.IH [OF w1] by (simp add: s)
  next
    case (Some e)
    then show ?thesis using w1 by (simp add: s)
  qed
qed

lemma initial_roles_permutation:
  "roles_permutation (capture (initial_world b f0 t0 g))"
  by (simp add: initial_world_def new_FrameCapture_def roles_permutation_def roles_def)

lemma array_at_roles:
  "roles_permutation s \<Longrightarrow> \<exists>t. array_at a (frame_present_id s) = Inr t"
  by (cases a) (auto simp: roles_permutation_def roles_def)

lemmas eval_defs =
  initial_world_def new_FrameCapture_def onSwap_def getNextFrame_def Let_def gl0_def
  glBindFramebuffer_def CHECK_GL_ERRORS_glfw_def checkGLError_def glGetError_def
  GL_NO_ERROR_def roles_def onSetup_def onCleanup_def

text \<open>
  C1.  In every state reached from the constructed object by any sequence of calls
  (\<^verbatim>\<open>getNextFrame\<close> and \<^verbatim>\<open>onSwap\<close>, and the other callbacks as well), in either backend, the
  three role indices are pairwise distinct and are exactly 0, 1 and 2.
\<close>

theorem roles_always_permutation:
  "roles_permutation (capture (snd (run b cs (initial_world b f0 t0 g))))"
  by (rule run_roles_permutation [OF initial_roles_permutation])

theorem roles_always_permutation_witness:
  "roles (capture (snd (run GLFW [OnSwap, GetNextFrame, OnSwap, OnSwap, GetNextFrame]
     (initial_world GLFW (Array3 7 8 9) (Array3 4 5 6) gl0)))) = [1, 0, 2] \<and>
   roles_permutation (capture (snd (run GLFW [OnSwap, GetNextFrame, OnSwap, OnSwap, GetNextFrame]
     (initial_world GLFW (Array3 7 8 9) (Array3 4 5 6) gl0))))"
  using roles_always_permutation [of GLFW "[OnSwap, GetNextFrame, OnSwap, OnSwap, GetNextFrame]"
     "Array3 7 8 9" "Array3 4 5 6" gl0]
  by (simp add: eval_defs)

text \<open>
  C2.  Whatever calls came before, in any order, \<^verbatim>\<open>getNextFrame\<close> returns the texture of
  the slot that is the present index when it returns (it does not throw), and that slot is
  not the render index of that moment.
\<close>

theorem acquired_slot_is_not_render:
  "fst (getNextFrame (capture (snd (run b cs (initial_world b f0 t0 g))))) =
     array_at (textures (snd (getNextFrame (capture (snd (run b cs (initial_world b f0 t0 g)))))))
       (frame_present_id (snd (getNextFrame (capture (snd (run b cs (initial_world b f0 t0 g)))))))
   \<and> fst (getNextFrame (capture (snd (run b cs (initial_world b f0 t0 g))))) \<noteq> Inl out_of_range
   \<and> frame_present_id (snd (getNextFrame (capture (snd (run b cs (initial_world b f0 t0 g))))))
     \<noteq> frame_render_id (snd (getNextFrame (capture (snd (run b cs (initial_world b f0 t0 g))))))"
proof -
  let ?s = "capture (snd (run b cs (initial_world b f0 t0 g)))"
  let ?s' = "snd (getNextFrame ?s)"
  have inv: "roles_permutation ?s'"
    by (rule getNextFrame_roles_permutation
          [OF run_roles_permutation [OF initial_roles_permutation]])
  have r: "fst (getNextFrame ?s) = array_at (textures ?s') (frame_present_id ?s')"
    by (simp add: getNextFrame_def Let_def)
  obtain t where "array_at (textures ?s') (frame_present_id ?s') = Inr t"
    using array_at_roles [OF inv] by blast
  then have ok: "fst (getNextFrame ?s) \<noteq> Inl out_of_range" using r by simp
  have "frame_present_id ?s' \<noteq> frame_render_id ?s'"
    using inv by (auto simp: roles_permutation_def roles_def)
  then show ?thesis using r ok by blast
qed

theorem acquired_slot_is_not_render_witness:
  "fst (getNextFrame (capture (snd (run SDL [OnSwap, OnSwap, OnSwap]
      (initial_world SDL (Array3 0 0 0) (Array3 0 0 0) gl0))))) = Inr 0
   \<and> frame_present_id (snd (getNextFrame (capture (snd (run SDL [OnSwap, OnSwap, OnSwap]
      (initial_world SDL (Array3 0 0 0) (Array3 0 0 0) gl0)))))) = 0
   \<and> frame_render_id (snd (getNextFrame (capture (snd (run SDL [OnSwap, OnSwap, OnSwap]
      (initial_world SDL (Array3 0 0 0) (Array3 0 0 0) gl0)))))) = 1"
  using acquired_slot_is_not_render [of SDL "[OnSwap, OnSwap, OnSwap]"
      "Array3 0 0 0" "Array3 0 0 0" gl0]
  by (simp add: eval_defs)

text \<open>
  C6.  From any state, a second \<^verbatim>\<open>getNextFrame\<close> right after a first returns what the first
  returned: the first leaves the acquisition flag false, so the second exchanges nothing
  and leaves the object as it found it.
\<close>

theorem getNextFrame_twice:
  "fst (getNextFrame (snd (getNextFrame s))) = fst (getNextFrame s)
   \<and> snd (getNextFrame (snd (getNextFrame s))) = snd (getNextFrame s)
   \<and> frame_acquired (snd (getNextFrame s)) = False"
  by (simp add: getNextFrame_def Let_def)

theorem getNextFrame_twice_witness:
  "fst (getNextFrame (new_FrameCapture GLFW (Array3 7 8 9) (Array3 4 5 6)
         \<lparr>frame_acquired := True\<rparr>)) = Inr 5
   \<and> fst (getNextFrame (snd (getNextFrame (new_FrameCapture GLFW (Array3 7 8 9) (Array3 4 5 6)
         \<lparr>frame_acquired := True\<rparr>)))) = Inr 5"
  using getNextFrame_twice
    [of "new_FrameCapture GLFW (Array3 7 8 9) (Array3 4 5 6)\<lparr>frame_acquired := True\<rparr>"]
  by (simp add: eval_defs)

text \<open>
  C9.  From any state, \<^verbatim>\<open>getNextFrame\<close> leaves the render index as it was and at most
  exchanges the swap and present indices; \<^verbatim>\<open>onSwap\<close> leaves the present index as it was and
  exchanges the render and swap indices.
\<close>

theorem disjoint_role_pairs:
  "frame_render_id (snd (getNextFrame s)) = frame_render_id s
   \<and> (frame_swap_id (snd (getNextFrame s)), frame_present_id (snd (getNextFrame s))) =
       (if frame_acquired s then (frame_present_id s, frame_swap_id s)
        else (frame_swap_id s, frame_present_id s))
   \<and> frame_present_id (capture (snd (onSwap b w))) = frame_present_id (capture w)
   \<and> (frame_render_id (capture (snd (onSwap b w))), frame_swap_id (capture (snd (onSwap b w)))) =
       (frame_swap_id (capture w), frame_render_id (capture w))"
  by (simp add: getNextFrame_def onSwap_def Let_def split: sum.split)

theorem disjoint_role_pairs_witness:
  "roles (snd (getNextFrame (new_FrameCapture SDL (Array3 0 0 0) (Array3 0 0 0)
      \<lparr>frame_acquired := True\<rparr>))) = [0, 2, 1]
   \<and> roles (capture (snd (onSwap SDL (initial_world SDL (Array3 0 0 0) (Array3 0 0 0) gl0))))
       = [1, 0, 2]"
  using disjoint_role_pairs
    [of "new_FrameCapture SDL (Array3 0 0 0) (Array3 0 0 0)\<lparr>frame_acquired := True\<rparr>"
        SDL "initial_world SDL (Array3 0 0 0) (Array3 0 0 0) gl0"]
  by (simp add: eval_defs)

subsection \<open>Evaluation rules for concrete inputs\<close>

lemmas gl_defs =
  glGenTextures_def glGenFramebuffers_def glBindTexture_def glTexImage2D_def
  glTexParameteri_def glFramebufferTexture2D_def bound_texture_def new_texture_def
  surface_body_def CHECK_GL_ERRORS_sdl_def

lemmas alloc_defs =
  onUpdateOutput_def bind_render_target_def required_output_def
  cfg_640x480_def cfg_1280x720_def out0_def reply_123_def reply_456_def
  GL_FRAMEBUFFER_COMPLETE_def

lemma sdl_allocated_outcome:
  "onUpdateOutput SDL cfg_640x480 out0 reply_123
       (snd (onSetup (initial_world SDL (Array3 0 0 0) (Array3 0 0 0) gl0))) =
     (Inr (True, required_output SDL out0), sdl_allocated)"
  by (simp add: prod_eq_iff sdl_allocated_def sdl_start_def eval_defs gl_defs alloc_defs)

subsection \<open>Teardown\<close>

lemma CHECK_GL_ERRORS_glfw_resources [simp]:
  "gl_resources (gl (CHECK_GL_ERRORS_glfw n w)) = gl_resources (gl w)"
  by (simp add: CHECK_GL_ERRORS_glfw_def checkGLError_def glGetError_def gl_resources_def)

lemma delete_texture_None:
  "gl_textures g n = None \<Longrightarrow> gl_textures (delete_texture m g) n = None"
  by (simp add: delete_texture_def)

lemma delete_texture_removes:
  "n \<noteq> 0 \<Longrightarrow> gl_textures (delete_texture n g) n = None"
  by (simp add: delete_texture_def)

lemma glDeleteTextures_None:
  "gl_textures g n = None \<Longrightarrow> gl_textures (glDeleteTextures names g) n = None"
  unfolding glDeleteTextures_def
  by (induction names arbitrary: g) (simp_all add: delete_texture_None)

lemma glDeleteTextures_removes:
  "n \<in> set names \<Longrightarrow> n \<noteq> 0 \<Longrightarrow> gl_textures (glDeleteTextures names g) n = None"
proof (induction names arbitrary: g)
  case Nil
  then show ?case by simp
next
  case (Cons m names)
  show ?case
  proof (cases "n = m")
    case True
    have "gl_textures (delete_texture m g) n = None"
      using Cons.prems(2) True by (simp add: delete_texture_removes)
    then have "gl_textures (glDeleteTextures names (delete_texture m g)) n = None"
      by (rule glDeleteTextures_None)
    then show ?thesis by (simp add: glDeleteTextures_def)
  next
    case False
    then have "n \<in> set names" using Cons.prems(1) by simp
    then have "gl_textures (glDeleteTextures names (delete_texture m g)) n = None"
      using Cons.IH Cons.prems(2) by blast
    then show ?thesis by (simp add: glDeleteTextures_def)
  qed
qed

lemma delete_framebuffer_textures [simp]:
  "gl_textures (delete_framebuffer m g) = gl_textures g"
  by (simp add: delete_framebuffer_def)

lemma glDeleteFramebuffers_textures [simp]:
  "gl_textures (glDeleteFramebuffers names g) = gl_textures g"
  unfolding glDeleteFramebuffers_def
  by (induction names arbitrary: g) simp_all

lemma delete_framebuffer_None:
  "gl_framebuffers g n = None \<Longrightarrow> gl_framebuffers (delete_framebuffer m g) n = None"
  by (simp add: delete_framebuffer_def)

lemma delete_framebuffer_removes:
  "n \<noteq> 0 \<Longrightarrow> gl_framebuffers (delete_framebuffer n g) n = None"
  by (simp add: delete_framebuffer_def)

lemma glDeleteFramebuffers_None:
  "gl_framebuffers g n = None \<Longrightarrow> gl_framebuffers (glDeleteFramebuffers names g) n = None"
  unfolding glDeleteFramebuffers_def
  by (induction names arbitrary: g) (simp_all add: delete_framebuffer_None)

lemma glDeleteFramebuffers_removes:
  "n \<in> set names \<Longrightarrow> n \<noteq> 0 \<Longrightarrow> gl_framebuffers (glDeleteFramebuffers names g) n = None"
proof (induction names arbitrary: g)
  case Nil
  then show ?case by simp
next
  case (Cons m names)
  show ?case
  proof (cases "n = m")
    case True
    have "gl_framebuffers (delete_framebuffer m g) n = None"
      using Cons.prems(2) True by (simp add: delete_framebuffer_removes)
    then have "gl_framebuffers (glDeleteFramebuffers names (delete_framebuffer m g)) n = None"
      by (rule glDeleteFramebuffers_None)
    then show ?thesis by (simp add: glDeleteFramebuffers_def)
  next
    case False
    then have "n \<in> set names" using Cons.prems(1) by simp
    then have "gl_framebuffers (glDeleteFramebuffers names (delete_framebuffer m g)) n = None"
      using Cons.IH Cons.prems(2) by blast
    then show ?thesis by (simp add: glDeleteFramebuffers_def)
  qed
qed

lemma onCleanup_unsized:
  "\<not> (0 < frame_width (capture w) \<and> 0 < frame_height (capture w)) \<Longrightarrow>
     gl_resources (gl (onCleanup b w)) = gl_resources (gl w)"
  by (auto simp: onCleanup_def Let_def)

lemma onCleanup_sized:
  assumes "0 < frame_width (capture w)" "0 < frame_height (capture w)"
  shows "gl_resources (gl (onCleanup b w)) =
     gl_resources (glDeleteFramebuffers (array_data (fbos (capture w)))
        (glDeleteTextures (array_data (textures (capture w))) (gl w)))"
  using assms by (simp add: onCleanup_def Let_def)

text \<open>
  C10.  \<^verbatim>\<open>onCleanup\<close> deletes only when both recorded dimensions are positive: then none of
  the three texture names and none of the three framebuffer names (0 apart, which names no
  object) is an object afterwards.  Otherwise the objects and bindings of the context are
  as before (in the SDL file the whole state is; the GLFW file's error check reads and
  resets the error flag).  This is the case on the constructed object, before any
  \<^verbatim>\<open>onUpdateOutput\<close>, and right after \<^verbatim>\<open>onSetup\<close>.
\<close>

theorem onCleanup_deletes_only_when_sized:
  "(0 < frame_width (capture w) \<and> 0 < frame_height (capture w) \<longrightarrow>
      (\<forall>n \<in> set (array_data (textures (capture w))). n \<noteq> 0 \<longrightarrow>
          gl_textures (gl (onCleanup b w)) n = None) \<and>
      (\<forall>n \<in> set (array_data (fbos (capture w))). n \<noteq> 0 \<longrightarrow>
          gl_framebuffers (gl (onCleanup b w)) n = None))
   \<and> (\<not> (0 < frame_width (capture w) \<and> 0 < frame_height (capture w)) \<longrightarrow>
        gl_resources (gl (onCleanup b w)) = gl_resources (gl w)
        \<and> (b = SDL \<longrightarrow> onCleanup b w = w))
   \<and> gl_resources (gl (onCleanup b (initial_world b f0 t0 g))) = gl_resources g
   \<and> gl_resources (gl (onCleanup b (snd (onSetup w)))) = gl_resources (gl w)"
proof -
  have sized: "0 < frame_width (capture w) \<and> 0 < frame_height (capture w) \<Longrightarrow>
      (\<forall>n \<in> set (array_data (textures (capture w))). n \<noteq> 0 \<longrightarrow>
          gl_textures (gl (onCleanup b w)) n = None) \<and>
      (\<forall>n \<in> set (array_data (fbos (capture w))). n \<noteq> 0 \<longrightarrow>
          gl_framebuffers (gl (onCleanup b w)) n = None)"
  proof -
    assume a: "0 < frame_width (capture w) \<and> 0 < frame_height (capture w)"
    let ?g = "glDeleteFramebuffers (array_data (fbos (capture w)))
        (glDeleteTextures (array_data (textures (capture w))) (gl w))"
    have r: "gl_resources (gl (onCleanup b w)) = gl_resources ?g"
      using a by (simp add: onCleanup_sized)
    then have t: "gl_textures (gl (onCleanup b w)) = gl_textures ?g"
      and f: "gl_framebuffers (gl (onCleanup b w)) = gl_framebuffers ?g"
      by (simp_all add: gl_resources_def)
    show ?thesis
      by (simp add: t f glDeleteTextures_removes glDeleteFramebuffers_removes)
  qed
  have unsized: "\<not> (0 < frame_width (capture w) \<and> 0 < frame_height (capture w)) \<Longrightarrow>
        gl_resources (gl (onCleanup b w)) = gl_resources (gl w)
        \<and> (b = SDL \<longrightarrow> onCleanup b w = w)"
    using onCleanup_unsized [of w b] by (auto simp: onCleanup_def Let_def)
  have init: "gl_resources (gl (onCleanup b (initial_world b f0 t0 g))) = gl_resources g"
    using onCleanup_unsized [of "initial_world b f0 t0 g" b]
    by (simp add: initial_world_def new_FrameCapture_def)
  have after_setup: "gl_resources (gl (onCleanup b (snd (onSetup w)))) = gl_resources (gl w)"
    using onCleanup_unsized [of "snd (onSetup w)" b]
    by (simp add: onSetup_def)
  show ?thesis using sized unsized init after_setup by blast
qed


theorem onCleanup_deletes_only_when_sized_witness:
  "gl_textures (gl sdl_allocated) 2 \<noteq> None
   \<and> gl_textures (gl (onCleanup SDL sdl_allocated)) 2 = None
   \<and> gl_framebuffers (gl (onCleanup SDL sdl_allocated)) 3 = None
   \<and> onCleanup SDL sdl_start = sdl_start"
  using onCleanup_deletes_only_when_sized [of sdl_allocated SDL]
    onCleanup_deletes_only_when_sized [of sdl_start SDL]
  by (simp add: sdl_allocated_def sdl_start_def eval_defs gl_defs alloc_defs)


subsection \<open>Publishing and acquiring\<close>

lemma onSwap_capture:
  assumes "roles_permutation (capture w)"
  shows "capture (snd (onSwap b w)) =
     (capture w)\<lparr>frame_render_id := frame_swap_id (capture w),
                 frame_swap_id := frame_render_id (capture w), frame_acquired := True\<rparr>"
proof -
  obtain fa fb fc where f: "fbos (capture w) = Array3 fa fb fc" by (cases "fbos (capture w)")
  have "frame_swap_id (capture w) \<in> {0, 1, 2}"
    using assms by (auto simp: roles_permutation_def roles_def)
  then show ?thesis by (auto simp: onSwap_def Let_def f)
qed

lemma publish_then_acquire:
  assumes "roles_permutation (capture w)"
  shows "fst (acquire (snd (onSwap b w))) = render_texture w"
  by (simp add: acquire_def render_texture_def getNextFrame_def Let_def onSwap_capture [OF assms])

lemma acquire_roles_permutation:
  "roles_permutation (capture w) \<Longrightarrow> roles_permutation (capture (snd (acquire w)))"
  by (simp add: acquire_def getNextFrame_roles_permutation)

lemma publish_twice_then_acquire:
  assumes "roles_permutation (capture w)"
  shows "fst (acquire (snd (onSwap b (snd (onSwap b w))))) = render_texture (snd (onSwap b w))"
  by (rule publish_then_acquire [OF onSwap_roles_permutation [OF assms]])

lemma fresh_ring_after_allocation:
  "fresh_ring (capture (snd (onUpdateOutput b cfg out reply (snd (onSetup (initial_world b f0 t0 g))))))"
  by (simp add: onUpdateOutput_capture fresh_ring_def onSetup_def initial_world_def new_FrameCapture_def)

text \<open>
  C7.  On a ring allocated right after construction and \<^verbatim>\<open>onSetup\<close> (\<^verbatim>\<open>onUpdateOutput\<close>
  returned true), frame A is rendered into the first texture.  Publish, acquire returns A's
  texture; the decoder then renders frame B into the second texture; publish, acquire
  returns B's texture.  With two publishes and no acquire in between (A in the first
  texture, B in the second), the acquire returns B's texture.
\<close>

theorem newest_wins:
  assumes "onUpdateOutput b cfg out reply (snd (onSetup (initial_world b f0 t0 g))) =
             (Inr (True, out'), w0)"
    and "gen_textures reply = Array3 ta tb tc"
  shows "render_texture w0 = Inr ta
     \<and> fst (acquire (snd (onSwap b w0))) = Inr ta
     \<and> render_texture (snd (acquire (snd (onSwap b w0)))) = Inr tb
     \<and> fst (acquire (snd (onSwap b (snd (acquire (snd (onSwap b w0))))))) = Inr tb
     \<and> render_texture (snd (onSwap b w0)) = Inr tb
     \<and> fst (acquire (snd (onSwap b (snd (onSwap b w0))))) = Inr tb"
proof -
  have w0: "w0 = snd (onUpdateOutput b cfg out reply (snd (onSetup (initial_world b f0 t0 g))))"
    by (simp add: assms(1))
  have c0: "capture w0 = (capture (snd (onSetup (initial_world b f0 t0 g))))
      \<lparr>textures := Array3 ta tb tc, fbos := gen_framebuffers reply,
       frame_width := width cfg, frame_height := height cfg\<rparr>"
    by (simp only: w0 onUpdateOutput_capture assms(2))
  have p0: "roles_permutation (capture w0)"
    by (simp add: c0 onSetup_def initial_world_def new_FrameCapture_def
        roles_permutation_def roles_def)
  let ?w1 = "snd (onSwap b w0)"
  let ?w2 = "snd (acquire ?w1)"
  have p1: "roles_permutation (capture ?w1)" by (rule onSwap_roles_permutation [OF p0])
  have p2: "roles_permutation (capture ?w2)" by (rule acquire_roles_permutation [OF p1])
  have a: "render_texture w0 = Inr ta"
    by (simp add: render_texture_def c0 onSetup_def initial_world_def new_FrameCapture_def)
  have c1: "capture ?w1 = (capture w0)\<lparr>frame_render_id := frame_swap_id (capture w0),
                 frame_swap_id := frame_render_id (capture w0), frame_acquired := True\<rparr>"
    by (rule onSwap_capture [OF p0])
  have b1: "render_texture ?w1 = Inr tb"
    by (simp add: render_texture_def c1 c0 onSetup_def initial_world_def new_FrameCapture_def)
  have b2: "render_texture ?w2 = Inr tb"
    by (simp add: render_texture_def acquire_def getNextFrame_def Let_def c1 c0 onSetup_def
        initial_world_def new_FrameCapture_def)
  show ?thesis
    using a b1 b2 publish_then_acquire [OF p0, of b] publish_then_acquire [OF p1, of b]
      publish_then_acquire [OF p2, of b]
    by simp
qed

theorem newest_wins_witness:
  "fst (acquire (snd (onSwap SDL sdl_allocated))) = Inr 1
   \<and> fst (acquire (snd (onSwap SDL (snd (acquire (snd (onSwap SDL sdl_allocated))))))) = Inr 2
   \<and> fst (acquire (snd (onSwap SDL (snd (onSwap SDL sdl_allocated))))) = Inr 2"
  using newest_wins [OF sdl_allocated_outcome, of 1 2 3]
  by (simp add: reply_123_def)

subsection \<open>The output descriptor\<close>

lemma bind_render_target_output:
  "bind_render_target b out w = (Inr (ok, out'), w') \<Longrightarrow> ok \<and> out' = required_output b out"
  by (auto simp: bind_render_target_def case_prod_beta split: if_splits sum.splits)

lemma onUpdateOutput_output:
  "onUpdateOutput b cfg out reply w = (Inr (ok, out'), w') \<Longrightarrow>
     ok \<and> out' = required_output b out"
  by (auto simp: onUpdateOutput_def Let_def case_prod_beta
      split: if_splits sum.splits dest: bind_render_target_output)

text \<open>
  C8.  In the SDL file a call of \<^verbatim>\<open>onUpdateOutput\<close> that returns, returns true with
  the format, range, colorspace, primaries and transfer function set as claimed, and with
  the orientation of the descriptor as the caller left it: that file never writes the
  field, the GLFW file does.
\<close>

theorem sdl_orientation_not_populated:
  assumes "onUpdateOutput SDL cfg out reply w = (Inr (ok, out'), w')"
  shows "ok \<and> opengl_format out' = GL_RGBA \<and> full_range out'
     \<and> colorspace out' = libvlc_video_colorspace_BT709
     \<and> primaries out' = libvlc_video_primaries_BT709
     \<and> transfer out' = libvlc_video_transfer_func_SRGB
     \<and> orientation out' = orientation out"
  using onUpdateOutput_output [OF assms] by (simp add: required_output_def)

theorem sdl_orientation_not_populated_witness:
  "fst (onUpdateOutput SDL cfg_640x480 out0 reply_123 sdl_start) =
     Inr (True, \<lparr>opengl_format = GL_RGBA, full_range = True,
           colorspace = libvlc_video_colorspace_BT709,
           primaries = libvlc_video_primaries_BT709,
           transfer = libvlc_video_transfer_func_SRGB,
           orientation = libvlc_video_orient_bottom_left\<rparr>)
   \<and> orientation out0 = libvlc_video_orient_bottom_left"
proof -
  have e: "fst (onUpdateOutput SDL cfg_640x480 out0 reply_123 sdl_start) =
      Inr (True, required_output SDL out0)"
    by (simp add: sdl_start_def sdl_allocated_outcome)
  show ?thesis
    using sdl_orientation_not_populated [OF sdl_allocated_outcome]
    unfolding e by (simp add: required_output_def out0_def)
qed

text \<open>The GLFW file sets all six fields.\<close>

lemma glfw_output_populated:
  assumes "onUpdateOutput GLFW cfg out reply w = (Inr (ok, out'), w')"
  shows "ok \<and> out' = \<lparr>opengl_format = GL_RGBA, full_range = True,
           colorspace = libvlc_video_colorspace_BT709,
           primaries = libvlc_video_primaries_BT709,
           transfer = libvlc_video_transfer_func_SRGB,
           orientation = libvlc_video_orient_top_left\<rparr>"
  using onUpdateOutput_output [OF assms] by (simp add: required_output_def)

subsection \<open>Before the first published frame\<close>

lemma step_fresh_ring:
  "c \<noteq> OnSwap \<Longrightarrow> fresh_ring (capture w) \<Longrightarrow> fresh_ring (capture (snd (step b c w)))"
  by (cases c)
     (simp_all add: fresh_ring_def getNextFrame_def Let_def onSetup_def onUpdateOutput_capture
        case_prod_beta)

lemma run_fresh_ring:
  "OnSwap \<notin> set cs \<Longrightarrow> fresh_ring (capture w) \<Longrightarrow> fresh_ring (capture (snd (run b cs w)))"
proof (induction cs arbitrary: w)
  case Nil
  then show ?case by simp
next
  case (Cons c cs)
  obtain r w1 where s: "step b c w = (r, w1)" by (cases "step b c w")
  have "c \<noteq> OnSwap" using Cons.prems(1) by auto
  then have w1: "fresh_ring (capture w1)"
    using step_fresh_ring [of c w b] Cons.prems(2) by (simp add: s)
  have "OnSwap \<notin> set cs" using Cons.prems(1) by simp
  then have "fresh_ring (capture (snd (run b cs w1)))" using Cons.IH w1 by blast
  then show ?case using w1 by (cases r) (simp_all add: s)
qed

lemma step_textures_kept:
  "c \<in> {GetNextFrame, OnSetup, OnCleanup} \<Longrightarrow>
     textures (capture (snd (step b c w))) = textures (capture w)"
  by (auto simp: getNextFrame_def Let_def onSetup_def)

lemma run_textures_kept:
  "\<forall>c \<in> set cs. c \<in> {GetNextFrame, OnSetup, OnCleanup} \<Longrightarrow>
     textures (capture (snd (run b cs w))) = textures (capture w)"
proof (induction cs arbitrary: w)
  case Nil
  then show ?case by simp
next
  case (Cons c cs)
  obtain r w1 where s: "step b c w = (r, w1)" by (cases "step b c w")
  have w1: "textures (capture w1) = textures (capture w)"
    using step_textures_kept [of c b w] Cons.prems by (simp add: s)
  have "textures (capture (snd (run b cs w1))) = textures (capture w1)"
    using Cons.IH Cons.prems by simp
  then show ?case using w1 by (cases r) (simp_all add: s)
qed

lemma fresh_ring_getNextFrame:
  "fresh_ring s \<Longrightarrow> fst (getNextFrame s) = array_at (textures s) 2"
  by (simp add: fresh_ring_def getNextFrame_def Let_def)

lemma initial_fresh_ring: "fresh_ring (capture (initial_world b f0 t0 g))"
  by (simp add: fresh_ring_def initial_world_def new_FrameCapture_def)

text \<open>
  C3, as stated, fails: after \<^verbatim>\<open>onUpdateOutput\<close> has allocated the textures, and before
  any \<^verbatim>\<open>onSwap\<close>, \<^verbatim>\<open>getNextFrame\<close> returns the third generated name, here 3, not 0.
\<close>

theorem getNextFrame_nonzero_after_allocation:
  "fst (getNextFrame (capture sdl_allocated)) = Inr 3"
  by (simp add: sdl_allocated_def sdl_start_def eval_defs gl_defs alloc_defs)

text \<open>
  C3, amended.  As long as no \<^verbatim>\<open>onSwap\<close> has run, \<^verbatim>\<open>getNextFrame\<close> returns the element
  of \<^verbatim>\<open>textures_\<close> at index 2, the first present slot.  In the SDL file, whose constructor
  zeroes the array, this is 0 while no \<^verbatim>\<open>onUpdateOutput\<close> has run.  After an
  \<^verbatim>\<open>onUpdateOutput\<close> it is the third name written by \<^verbatim>\<open>glGenTextures\<close>, which is not 0
  when the driver keeps OpenGL's contract.
\<close>

theorem getNextFrame_before_first_swap:
  assumes "OnSwap \<notin> set cs"
  shows "fst (getNextFrame (capture (snd (run b cs (initial_world b f0 t0 g))))) =
           array_at (textures (capture (snd (run b cs (initial_world b f0 t0 g))))) 2
     \<and> ((\<forall>c \<in> set cs. c \<in> {GetNextFrame, OnSetup, OnCleanup}) \<longrightarrow>
          fst (getNextFrame (capture (snd (run SDL cs (initial_world SDL f0 t0 g))))) = Inr 0)
     \<and> fst (getNextFrame (capture (snd (onUpdateOutput b cfg out reply
              (snd (run b cs (initial_world b f0 t0 g))))))) = array_at (gen_textures reply) 2
     \<and> (fresh_names (array_data (gen_textures reply)) used \<longrightarrow>
          array_at (gen_textures reply) 2 \<noteq> Inr 0)"
proof -
  let ?w = "snd (run b cs (initial_world b f0 t0 g))"
  have fr: "fresh_ring (capture ?w)"
    by (rule run_fresh_ring [OF assms initial_fresh_ring])
  have one: "fst (getNextFrame (capture ?w)) = array_at (textures (capture ?w)) 2"
    by (rule fresh_ring_getNextFrame [OF fr])
  have two: "(\<forall>c \<in> set cs. c \<in> {GetNextFrame, OnSetup, OnCleanup}) \<longrightarrow>
          fst (getNextFrame (capture (snd (run SDL cs (initial_world SDL f0 t0 g))))) = Inr 0"
  proof
    assume k: "\<forall>c \<in> set cs. c \<in> {GetNextFrame, OnSetup, OnCleanup}"
    let ?v = "snd (run SDL cs (initial_world SDL f0 t0 g))"
    have "fresh_ring (capture ?v)" by (rule run_fresh_ring [OF assms initial_fresh_ring])
    then have "fst (getNextFrame (capture ?v)) = array_at (textures (capture ?v)) 2"
      by (rule fresh_ring_getNextFrame)
    also have "textures (capture ?v) = textures (capture (initial_world SDL f0 t0 g))"
      by (rule run_textures_kept [OF k])
    finally show "fst (getNextFrame (capture ?v)) = Inr 0"
      by (simp add: initial_world_def new_FrameCapture_def)
  qed
  have "fresh_ring (capture (snd (onUpdateOutput b cfg out reply ?w)))"
    using fr by (simp add: onUpdateOutput_capture fresh_ring_def)
  then have three: "fst (getNextFrame (capture (snd (onUpdateOutput b cfg out reply ?w)))) =
      array_at (gen_textures reply) 2"
    using fresh_ring_getNextFrame by (simp add: onUpdateOutput_capture)
  have four: "fresh_names (array_data (gen_textures reply)) used \<longrightarrow>
          array_at (gen_textures reply) 2 \<noteq> Inr 0"
    by (cases "gen_textures reply") (auto simp: fresh_names_def)
  show ?thesis using one two three four by blast
qed

theorem getNextFrame_before_first_swap_witness:
  "fst (getNextFrame (capture (snd (run SDL [OnSetup, GetNextFrame, OnCleanup]
       (initial_world SDL (Array3 7 8 9) (Array3 4 5 6) gl0))))) = Inr 0
   \<and> fst (getNextFrame (capture (snd (onUpdateOutput SDL cfg_640x480 out0 reply_123
        (snd (run SDL [OnSetup, GetNextFrame, OnCleanup]
           (initial_world SDL (Array3 7 8 9) (Array3 4 5 6) gl0))))))) = Inr 3"
proof -
  have h: "OnSwap \<notin> set [OnSetup, GetNextFrame, OnCleanup]" by simp
  show ?thesis
    using getNextFrame_before_first_swap [OF h, of SDL "Array3 7 8 9" "Array3 4 5 6" gl0
        cfg_640x480 out0 reply_123 "{}"]
    by (simp add: reply_123_def eval_defs onUpdateOutput_capture)
qed

subsection \<open>Allocation: the effect of the commands, name by name\<close>

lemma onUpdateOutput_parts:
  "onUpdateOutput b cfg out reply w =
     after_loop b out reply
       (surface_loop b (width cfg) (height cfg) (slot_pairs reply)
          (generate_names cfg reply (log_size_change cfg w)))"
  by (simp add: onUpdateOutput_def after_loop_def generate_names_def log_size_change_def
      slot_pairs_def Let_def)

lemma glGen_fold_tex:
  "fold (\<lambda>n m. m(n \<mapsto> v)) names m0 k = (if k \<in> set names then Some v else m0 k)"
  by (induction names arbitrary: m0) auto

lemma glGenTextures_textures:
  "gl_textures (glGenTextures names g) n =
     (if n \<in> set names then Some new_texture else gl_textures g n)"
  by (simp add: glGenTextures_def glGen_fold_tex)

lemma glGenTextures_framebuffers [simp]:
  "gl_framebuffers (glGenTextures names g) = gl_framebuffers g"
  by (simp add: glGenTextures_def)

lemma glGenFramebuffers_framebuffers:
  "gl_framebuffers (glGenFramebuffers names g) n =
     (if n \<in> set names then Some 0 else gl_framebuffers g n)"
  by (simp add: glGenFramebuffers_def glGen_fold_tex)

lemma glGenFramebuffers_textures [simp]:
  "gl_textures (glGenFramebuffers names g) = gl_textures g"
  by (simp add: glGenFramebuffers_def)

lemma glBindTexture_textures:
  "gl_textures (glBindTexture t g) n =
     (if n = t \<and> gl_textures g t = None then Some new_texture else gl_textures g n)"
  by (simp add: glBindTexture_def)

lemma glBindTexture_framebuffers [simp]:
  "gl_framebuffers (glBindTexture t g) = gl_framebuffers g"
  by (simp add: glBindTexture_def)

lemma glBindFramebuffer_textures [simp]:
  "gl_textures (glBindFramebuffer f g) = gl_textures g"
  by (simp add: glBindFramebuffer_def)

lemma glBindFramebuffer_framebuffers:
  "gl_framebuffers (glBindFramebuffer f g) n =
     (if n = f \<and> f \<noteq> 0 \<and> gl_framebuffers g f = None then Some 0 else gl_framebuffers g n)"
  by (simp add: glBindFramebuffer_def)

lemma surface_body_textures_other:
  "n \<noteq> t \<Longrightarrow> gl_textures (surface_body fw fh t f g) n = gl_textures g n"
  by (simp add: surface_body_def glFramebufferTexture2D_def glBindFramebuffer_def
      glTexParameteri_def glTexImage2D_def glBindTexture_def)

lemma surface_body_textures_image:
  "map_option tex_image (gl_textures (surface_body fw fh t f g) t) =
     Some (Some (GL_RGBA, fw, fh))"
  by (simp add: surface_body_def glFramebufferTexture2D_def glBindFramebuffer_def
      glTexParameteri_def glTexImage2D_def glBindTexture_def bound_texture_def)

lemma surface_body_framebuffers_other:
  "n \<noteq> f \<Longrightarrow> gl_framebuffers (surface_body fw fh t f g) n = gl_framebuffers g n"
  by (simp add: surface_body_def glFramebufferTexture2D_def glBindFramebuffer_def
      glTexParameteri_def glTexImage2D_def glBindTexture_def)

lemma surface_body_framebuffers_attached:
  "f \<noteq> 0 \<Longrightarrow> gl_framebuffers (surface_body fw fh t f g) f = Some t"
  by (simp add: surface_body_def glFramebufferTexture2D_def glBindFramebuffer_def
      glTexParameteri_def glTexImage2D_def glBindTexture_def)

lemma surface_body_error [simp]:
  "gl_error (surface_body fw fh t f g) = gl_error g"
  by (simp add: surface_body_def glFramebufferTexture2D_def glBindFramebuffer_def
      glTexParameteri_def glTexImage2D_def glBindTexture_def)

subsection \<open>The loop, when it succeeds\<close>

lemma CHECK_GL_ERRORS_sdl_success:
  "CHECK_GL_ERRORS_sdl w = (Inr u, w') \<Longrightarrow> w' = w"
  by (auto simp: CHECK_GL_ERRORS_sdl_def glGetError_def split: if_splits)

lemma surface_loop_success:
  "surface_loop b fw fh ps w = (Inr u, w') \<Longrightarrow>
     w' = w\<lparr>gl := fold (\<lambda>(t, f). surface_body fw fh t f) ps (gl w)\<rparr>"
proof (induction ps arbitrary: w)
  case Nil
  then show ?case by simp
next
  case (Cons p ps)
  obtain t f where p: "p = (t, f)" by (cases p)
  let ?w1 = "w\<lparr>gl := surface_body fw fh t f (gl w)\<rparr>"
  show ?case
  proof (cases "b = SDL")
    case False
    then have "surface_loop b fw fh ps ?w1 = (Inr u, w')"
      using Cons.prems by (simp add: p Let_def)
    then have "w' = ?w1\<lparr>gl := fold (\<lambda>(t, f). surface_body fw fh t f) ps (gl ?w1)\<rparr>"
      by (rule Cons.IH)
    then show ?thesis by (simp add: p)
  next
    case True
    obtain r w2 where c: "CHECK_GL_ERRORS_sdl ?w1 = (r, w2)"
      by (cases "CHECK_GL_ERRORS_sdl ?w1")
    show ?thesis
    proof (cases r)
      case (Inl e)
      then show ?thesis using Cons.prems True by (simp add: p Let_def c)
    next
      case (Inr v)
      then have w2: "w2 = ?w1" using c CHECK_GL_ERRORS_sdl_success by blast
      have "surface_loop b fw fh ps ?w1 = (Inr u, w')"
        using Cons.prems True Inr w2 by (simp add: p Let_def c)
      then have "w' = ?w1\<lparr>gl := fold (\<lambda>(t, f). surface_body fw fh t f) ps (gl ?w1)\<rparr>"
        by (rule Cons.IH)
      then show ?thesis by (simp add: p)
    qed
  qed
qed

lemma bind_render_target_success:
  assumes "bind_render_target b out w = (Inr r, w')"
  shows "\<exists>fbo. array_at (fbos (capture w)) (frame_render_id (capture w)) = Inr fbo
           \<and> gl_resources (gl w') = gl_resources (glBindFramebuffer fbo (gl w))"
proof (cases "b = GLFW")
  case True
  then show ?thesis using assms
    by (auto simp: bind_render_target_def split: sum.splits)
next
  case False
  obtain c w1 where c: "CHECK_GL_ERRORS_sdl w = (c, w1)" by (cases "CHECK_GL_ERRORS_sdl w")
  show ?thesis
  proof (cases c)
    case (Inl e)
    then show ?thesis using assms False by (simp add: bind_render_target_def c)
  next
    case (Inr v)
    then have "w1 = w" using c CHECK_GL_ERRORS_sdl_success by blast
    then show ?thesis using assms False Inr
      by (auto simp: bind_render_target_def c split: sum.splits)
  qed
qed

text \<open>The resources of the context after a call of \<^verbatim>\<open>onUpdateOutput\<close> that returned.\<close>

lemma onUpdateOutput_success_resources:
  assumes "onUpdateOutput b cfg out reply w = (Inr r, w')"
  shows "\<exists>fbo. array_at (gen_framebuffers reply) (frame_render_id (capture w)) = Inr fbo
     \<and> gl_resources (gl w') =
         gl_resources (glBindFramebuffer fbo (glBindTexture 0
           (fold (\<lambda>(t, f). surface_body (width cfg) (height cfg) t f) (slot_pairs reply)
             (glGenFramebuffers (array_data (gen_framebuffers reply))
               (glGenTextures (array_data (gen_textures reply)) (gl w))))))"
proof -
  let ?w2 = "generate_names cfg reply (log_size_change cfg w)"
  let ?loop = "surface_loop b (width cfg) (height cfg) (slot_pairs reply) ?w2"
  obtain l w3 where l: "?loop = (l, w3)" by (cases ?loop)
  have al: "after_loop b out reply (l, w3) = (Inr r, w')"
    using assms by (simp add: onUpdateOutput_parts l)
  then obtain u where u: "l = Inr u" by (cases l) (simp_all add: after_loop_def)
  have w3: "w3 = ?w2\<lparr>gl := fold (\<lambda>(t, f). surface_body (width cfg) (height cfg) t f)
      (slot_pairs reply) (gl ?w2)\<rparr>"
    using l u surface_loop_success by blast
  let ?w4 = "w3\<lparr>gl := glBindTexture 0 (gl w3)\<rparr>"
  have brt: "bind_render_target b out ?w4 = (Inr r, w')"
    using al u by (simp add: after_loop_def Let_def split: if_splits)
  have g2: "gl ?w2 = glGenFramebuffers (array_data (gen_framebuffers reply))
               (glGenTextures (array_data (gen_textures reply)) (gl w))"
    by (simp add: generate_names_def log_size_change_def)
  have c4: "fbos (capture ?w4) = gen_framebuffers reply"
    "frame_render_id (capture ?w4) = frame_render_id (capture w)"
    by (simp_all add: w3 generate_names_def log_size_change_def)
  have g4: "gl ?w4 = glBindTexture 0
           (fold (\<lambda>(t, f). surface_body (width cfg) (height cfg) t f) (slot_pairs reply)
             (glGenFramebuffers (array_data (gen_framebuffers reply))
               (glGenTextures (array_data (gen_textures reply)) (gl w))))"
    by (simp add: w3 g2)
  show ?thesis
    using bind_render_target_success [OF brt] by (simp only: c4 g4)
qed

lemmas pointwise =
  glGenTextures_textures glGenFramebuffers_framebuffers glBindTexture_textures
  glBindFramebuffer_framebuffers surface_body_textures_other surface_body_textures_image
  surface_body_framebuffers_other surface_body_framebuffers_attached

lemma array_at_member:
  "array_at a i = Inr x \<Longrightarrow> x \<in> set (array_data a)"
  by (cases a) (auto split: if_splits)

lemma onUpdateOutput_surfaces:
  assumes "onUpdateOutput b cfg out reply w = (Inr r, w')"
      and "gl_contract (gl w) reply"
  shows "textures (capture w') = gen_textures reply \<and> fbos (capture w') = gen_framebuffers reply
     \<and> frame_width (capture w') = width cfg \<and> frame_height (capture w') = height cfg
     \<and> (\<forall>(t, f) \<in> set (slot_pairs reply).
           t \<notin> dom (gl_textures (gl w)) \<and> f \<notin> dom (gl_framebuffers (gl w))
           \<and> map_option tex_image (gl_textures (gl w') t) =
               Some (Some (GL_RGBA, width cfg, height cfg))
           \<and> gl_framebuffers (gl w') f = Some t)
     \<and> (\<forall>n \<in> dom (gl_textures (gl w)). gl_textures (gl w') n = gl_textures (gl w) n)
     \<and> (\<forall>n \<in> dom (gl_framebuffers (gl w)).
           gl_framebuffers (gl w') n = gl_framebuffers (gl w) n)
     \<and> roles (capture w') = roles (capture w)
     \<and> frame_acquired (capture w') = frame_acquired (capture w)
     \<and> Inr (gl_framebuffer_binding (gl w')) =
         array_at (fbos (capture w')) (frame_render_id (capture w'))"
proof -
  obtain ta tb tc where ts: "gen_textures reply = Array3 ta tb tc"
    by (cases "gen_textures reply")
  obtain fa fb fc where fs: "gen_framebuffers reply = Array3 fa fb fc"
    by (cases "gen_framebuffers reply")
  have ps: "slot_pairs reply = [(ta, fa), (tb, fb), (tc, fc)]"
    by (simp add: slot_pairs_def ts fs)
  have dt: "ta \<noteq> tb" "ta \<noteq> tc" "tb \<noteq> tc" "ta \<noteq> 0" "tb \<noteq> 0" "tc \<noteq> 0"
    and nt: "gl_textures (gl w) ta = None" "gl_textures (gl w) tb = None"
      "gl_textures (gl w) tc = None"
    using assms(2) by (auto simp: gl_contract_def fresh_names_def ts)
  have df: "fa \<noteq> fb" "fa \<noteq> fc" "fb \<noteq> fc" "fa \<noteq> 0" "fb \<noteq> 0" "fc \<noteq> 0"
    and nf: "gl_framebuffers (gl w) fa = None" "gl_framebuffers (gl w) fb = None"
      "gl_framebuffers (gl w) fc = None"
    using assms(2) by (auto simp: gl_contract_def fresh_names_def fs)
  have cap: "capture w' = (capture w)\<lparr>textures := gen_textures reply,
      fbos := gen_framebuffers reply, frame_width := width cfg, frame_height := height cfg\<rparr>"
    using onUpdateOutput_capture [of b cfg out reply w] by (simp add: assms(1))
  let ?G = "\<lambda>fbo. glBindFramebuffer fbo (glBindTexture 0
           (surface_body (width cfg) (height cfg) tc fc
             (surface_body (width cfg) (height cfg) tb fb
               (surface_body (width cfg) (height cfg) ta fa
                 (glGenFramebuffers [fa, fb, fc] (glGenTextures [ta, tb, tc] (gl w)))))))"
  obtain fbo where fbo: "array_at (Array3 fa fb fc) (frame_render_id (capture w)) = Inr fbo"
    and res: "gl_resources (gl w') = gl_resources (?G fbo)"
    using onUpdateOutput_success_resources [OF assms(1)] by (auto simp: ps ts fs)
  have fbo_in: "fbo = fa \<or> fbo = fb \<or> fbo = fc"
    using array_at_member [OF fbo] by auto
  have tex: "gl_textures (gl w') = gl_textures (?G fbo)"
    and fbs: "gl_framebuffers (gl w') = gl_framebuffers (?G fbo)"
    and bnd: "gl_framebuffer_binding (gl w') = fbo"
    using res by (simp_all add: gl_resources_def glBindFramebuffer_def)
  have one: "textures (capture w') = gen_textures reply \<and> fbos (capture w') = gen_framebuffers reply
     \<and> frame_width (capture w') = width cfg \<and> frame_height (capture w') = height cfg
     \<and> roles (capture w') = roles (capture w)
     \<and> frame_acquired (capture w') = frame_acquired (capture w)"
    by (simp add: cap roles_def)
  have img: "map_option tex_image (gl_textures (gl w') ta) =
               Some (Some (GL_RGBA, width cfg, height cfg))"
    "map_option tex_image (gl_textures (gl w') tb) =
               Some (Some (GL_RGBA, width cfg, height cfg))"
    "map_option tex_image (gl_textures (gl w') tc) =
               Some (Some (GL_RGBA, width cfg, height cfg))"
    using dt by (simp_all add: tex pointwise)
  have att: "gl_framebuffers (gl w') fa = Some ta" "gl_framebuffers (gl w') fb = Some tb"
    "gl_framebuffers (gl w') fc = Some tc"
    using df fbo_in by (auto simp: fbs pointwise)
  have two: "\<forall>(t, f) \<in> set (slot_pairs reply).
           t \<notin> dom (gl_textures (gl w)) \<and> f \<notin> dom (gl_framebuffers (gl w))
           \<and> map_option tex_image (gl_textures (gl w') t) =
               Some (Some (GL_RGBA, width cfg, height cfg))
           \<and> gl_framebuffers (gl w') f = Some t"
    using img att nt nf by (simp add: ps dom_def)
  have keep_t: "\<forall>n \<in> dom (gl_textures (gl w)). gl_textures (gl w') n = gl_textures (gl w) n"
  proof
    fix n assume n: "n \<in> dom (gl_textures (gl w))"
    then have ne: "n \<noteq> ta" "n \<noteq> tb" "n \<noteq> tc" using nt by auto
    show "gl_textures (gl w') n = gl_textures (gl w) n"
      using ne n dt by (auto simp: tex pointwise)
  qed
  have keep_f: "\<forall>n \<in> dom (gl_framebuffers (gl w)).
           gl_framebuffers (gl w') n = gl_framebuffers (gl w) n"
  proof
    fix n assume n: "n \<in> dom (gl_framebuffers (gl w))"
    then have ne: "n \<noteq> fa" "n \<noteq> fb" "n \<noteq> fc" using nf by auto
    show "gl_framebuffers (gl w') n = gl_framebuffers (gl w) n"
      using ne n df fbo_in by (auto simp: fbs pointwise)
  qed
  have three: "Inr (gl_framebuffer_binding (gl w')) =
         array_at (fbos (capture w')) (frame_render_id (capture w'))"
    by (simp add: bnd cap fs fbo del: array_at.simps)
  show ?thesis using one two keep_t keep_f three by blast
qed

lemmas world_defs = sdl_published_def sdl_allocated_def sdl_start_def

lemma sdl_reallocated_outcome:
  "onUpdateOutput SDL cfg_1280x720 out0 reply_456 sdl_published =
     (Inr (True, required_output SDL out0), sdl_reallocated)"
  by (simp add: prod_eq_iff sdl_reallocated_def world_defs eval_defs gl_defs alloc_defs)

lemma sdl_published_contract: "gl_contract (gl sdl_published) reply_456"
  by (simp add: gl_contract_def fresh_names_def world_defs eval_defs gl_defs alloc_defs dom_def)

lemma sdl_allocated_again_outcome:
  "onUpdateOutput SDL cfg_640x480 out0 reply_456 sdl_allocated =
     (Inr (True, required_output SDL out0), sdl_allocated_again)"
  by (simp add: prod_eq_iff sdl_allocated_again_def world_defs eval_defs gl_defs alloc_defs)

lemma sdl_allocated_contract: "gl_contract (gl sdl_allocated) reply_456"
  by (simp add: gl_contract_def fresh_names_def world_defs eval_defs gl_defs alloc_defs dom_def)

text \<open>
  C4, as stated, fails.  The SDL example with one published frame (roles 1, 0, 2; textures
  1, 2, 3 of 640 by 480) is renegotiated at 1280 by 720: the call returns true, the roles
  are still 1, 0, 2, and texture 1 is still an object of the context, with its image of
  640 by 480 and attached to framebuffer 1.
\<close>

theorem onUpdateOutput_keeps_roles_and_surfaces:
  "fst (onUpdateOutput SDL cfg_1280x720 out0 reply_456 sdl_published) =
       Inr (True, required_output SDL out0)
   \<and> roles (capture sdl_published) = [1, 0, 2]
   \<and> roles (capture sdl_reallocated) = [1, 0, 2]
   \<and> textures (capture sdl_published) = Array3 1 2 3
   \<and> map_option tex_image (gl_textures (gl sdl_reallocated) 1) =
       Some (Some (GL_RGBA, 640, 480))
   \<and> gl_framebuffers (gl sdl_reallocated) 1 = Some 1"
  by (simp add: prod_eq_iff sdl_reallocated_def world_defs eval_defs gl_defs alloc_defs)

text \<open>
  C4, amended.  A call of \<^verbatim>\<open>onUpdateOutput\<close> that returns (given names that keep
  OpenGL's contract) stores the three generated texture names and the three generated
  framebuffer names in the object and records the dimensions; each of the three textures is
  new, has an RGBA image of the given dimensions and is attached to the framebuffer of the
  same index, which is new as well; every texture and framebuffer object that existed
  before is still there, unchanged; the role indices and the acquisition flag are as
  before; the framebuffer of the render index is the one bound.
\<close>

theorem onUpdateOutput_allocates:
  assumes "onUpdateOutput b cfg out reply w = (Inr r, w')"
      and "gl_contract (gl w) reply"
  shows "textures (capture w') = gen_textures reply \<and> fbos (capture w') = gen_framebuffers reply
     \<and> frame_width (capture w') = width cfg \<and> frame_height (capture w') = height cfg
     \<and> (\<forall>(t, f) \<in> set (slot_pairs reply).
           t \<notin> dom (gl_textures (gl w)) \<and> f \<notin> dom (gl_framebuffers (gl w))
           \<and> map_option tex_image (gl_textures (gl w') t) =
               Some (Some (GL_RGBA, width cfg, height cfg))
           \<and> gl_framebuffers (gl w') f = Some t)
     \<and> (\<forall>n \<in> dom (gl_textures (gl w)). gl_textures (gl w') n = gl_textures (gl w) n)
     \<and> (\<forall>n \<in> dom (gl_framebuffers (gl w)).
           gl_framebuffers (gl w') n = gl_framebuffers (gl w) n)
     \<and> roles (capture w') = roles (capture w)
     \<and> frame_acquired (capture w') = frame_acquired (capture w)
     \<and> Inr (gl_framebuffer_binding (gl w')) =
         array_at (fbos (capture w')) (frame_render_id (capture w'))"
  by (rule onUpdateOutput_surfaces [OF assms])

theorem onUpdateOutput_allocates_witness:
  "textures (capture sdl_reallocated) = Array3 4 5 6
   \<and> map_option tex_image (gl_textures (gl sdl_reallocated) 5) =
       Some (Some (GL_RGBA, 1280, 720))
   \<and> gl_framebuffers (gl sdl_reallocated) 5 = Some 5
   \<and> roles (capture sdl_reallocated) = roles (capture sdl_published)
   \<and> gl_framebuffer_binding (gl sdl_reallocated) = 5"
proof -
  note t = onUpdateOutput_allocates [OF sdl_reallocated_outcome sdl_published_contract]
  have r: "frame_render_id (capture sdl_reallocated) = 1"
    by (simp add: sdl_reallocated_def world_defs eval_defs gl_defs alloc_defs)
  show ?thesis
    using t by (auto simp: r slot_pairs_def reply_456_def cfg_1280x720_def)
qed

subsection \<open>Allocation does not depend on the recorded size\<close>

lemma CHECK_GL_ERRORS_sdl_gl_only:
  "gl w = gl v \<Longrightarrow> fst (CHECK_GL_ERRORS_sdl w) = fst (CHECK_GL_ERRORS_sdl v)
     \<and> gl (snd (CHECK_GL_ERRORS_sdl w)) = gl (snd (CHECK_GL_ERRORS_sdl v))"
  by (simp add: CHECK_GL_ERRORS_sdl_def glGetError_def)

lemma surface_loop_gl_only:
  "gl w = gl v \<Longrightarrow> fst (surface_loop b fw fh ps w) = fst (surface_loop b fw fh ps v)
     \<and> gl (snd (surface_loop b fw fh ps w)) = gl (snd (surface_loop b fw fh ps v))"
proof (induction ps arbitrary: w v)
  case Nil
  then show ?case by simp
next
  case (Cons p ps)
  obtain t f where p: "p = (t, f)" by (cases p)
  let ?w1 = "w\<lparr>gl := surface_body fw fh t f (gl w)\<rparr>"
  let ?v1 = "v\<lparr>gl := surface_body fw fh t f (gl v)\<rparr>"
  have g1: "gl ?w1 = gl ?v1" using Cons.prems by simp
  show ?case
  proof (cases "b = SDL")
    case False
    then show ?thesis using Cons.IH [OF g1] by (simp add: p Let_def)
  next
    case True
    obtain r w2 where cw: "CHECK_GL_ERRORS_sdl ?w1 = (r, w2)"
      by (cases "CHECK_GL_ERRORS_sdl ?w1")
    obtain r' v2 where cv: "CHECK_GL_ERRORS_sdl ?v1 = (r', v2)"
      by (cases "CHECK_GL_ERRORS_sdl ?v1")
    have same: "r = r'" "gl w2 = gl v2"
      using CHECK_GL_ERRORS_sdl_gl_only [OF g1] by (simp_all add: cw cv)
    show ?thesis
    proof (cases r)
      case (Inl e)
      then show ?thesis using True same by (simp add: p Let_def cw cv)
    next
      case (Inr u)
      then show ?thesis using True same Cons.IH [OF same(2)] by (simp add: p Let_def cw cv)
    qed
  qed
qed

lemma bind_render_target_gl_only:
  assumes "gl w = gl v" "fbos (capture w) = fbos (capture v)"
    "frame_render_id (capture w) = frame_render_id (capture v)"
  shows "fst (bind_render_target b out w) = fst (bind_render_target b out v)
     \<and> gl (snd (bind_render_target b out w)) = gl (snd (bind_render_target b out v))"
  using assms
  by (simp add: bind_render_target_def CHECK_GL_ERRORS_sdl_def CHECK_GL_ERRORS_glfw_def
      checkGLError_def glGetError_def split: sum.split)

lemma after_loop_gl_only:
  assumes "gl w = gl v" "fbos (capture w) = fbos (capture v)"
    "frame_render_id (capture w) = frame_render_id (capture v)"
  shows "fst (after_loop b out reply (l, w)) = fst (after_loop b out reply (l, v))
     \<and> gl (snd (after_loop b out reply (l, w))) = gl (snd (after_loop b out reply (l, v)))"
proof (cases l)
  case (Inl e)
  then show ?thesis using assms by (simp add: after_loop_def)
next
  case (Inr u)
  let ?w4 = "w\<lparr>gl := glBindTexture 0 (gl w)\<rparr>"
  let ?v4 = "v\<lparr>gl := glBindTexture 0 (gl v)\<rparr>"
  have "gl ?w4 = gl ?v4" "fbos (capture ?w4) = fbos (capture ?v4)"
    "frame_render_id (capture ?w4) = frame_render_id (capture ?v4)"
    using assms by simp_all
  then have "fst (bind_render_target b out ?w4) = fst (bind_render_target b out ?v4)
     \<and> gl (snd (bind_render_target b out ?w4)) = gl (snd (bind_render_target b out ?v4))"
    by (rule bind_render_target_gl_only)
  then show ?thesis using Inr assms by (simp add: after_loop_def Let_def)
qed

text \<open>
  The outcome of \<^verbatim>\<open>onUpdateOutput\<close> and the context it leaves depend on the context and
  the render index, not on the recorded dimensions.
\<close>

lemma onUpdateOutput_gl_only:
  assumes "gl w = gl v" "frame_render_id (capture w) = frame_render_id (capture v)"
  shows "fst (onUpdateOutput b cfg out reply w) = fst (onUpdateOutput b cfg out reply v)
     \<and> gl (snd (onUpdateOutput b cfg out reply w)) = gl (snd (onUpdateOutput b cfg out reply v))"
proof -
  let ?w2 = "generate_names cfg reply (log_size_change cfg w)"
  let ?v2 = "generate_names cfg reply (log_size_change cfg v)"
  let ?lw = "surface_loop b (width cfg) (height cfg) (slot_pairs reply) ?w2"
  let ?lv = "surface_loop b (width cfg) (height cfg) (slot_pairs reply) ?v2"
  have g2: "gl ?w2 = gl ?v2"
    using assms(1) by (simp add: generate_names_def log_size_change_def)
  obtain rw w3 where lw: "?lw = (rw, w3)" by (cases ?lw)
  obtain rv v3 where lv: "?lv = (rv, v3)" by (cases ?lv)
  have l: "rw = rv" "gl w3 = gl v3"
    using surface_loop_gl_only [OF g2, of b "width cfg" "height cfg" "slot_pairs reply"]
    by (simp_all add: lw lv)
  have "capture w3 = capture ?w2" "capture v3 = capture ?v2"
    using surface_loop_capture [of b "width cfg" "height cfg" "slot_pairs reply" ?w2]
      surface_loop_capture [of b "width cfg" "height cfg" "slot_pairs reply" ?v2]
    by (simp_all add: lw lv)
  then have c: "fbos (capture w3) = fbos (capture v3)"
    "frame_render_id (capture w3) = frame_render_id (capture v3)"
    using assms(2) by (simp_all add: generate_names_def log_size_change_def)
  have "fst (after_loop b out reply (rw, w3)) = fst (after_loop b out reply (rw, v3))
     \<and> gl (snd (after_loop b out reply (rw, w3))) = gl (snd (after_loop b out reply (rw, v3)))"
    by (rule after_loop_gl_only [OF l(2) c])
  then show ?thesis by (simp add: onUpdateOutput_parts lw lv l(1))
qed

subsection \<open>What the allocation writes to the error stream\<close>

lemma surface_loop_stderr [simp]:
  "stderr (snd (surface_loop b fw fh ps w)) = stderr w"
proof (induction ps arbitrary: w)
  case Nil
  show ?case by simp
next
  case (Cons p ps)
  obtain t f where p: "p = (t, f)" by (cases p)
  let ?w1 = "w\<lparr>gl := surface_body fw fh t f (gl w)\<rparr>"
  show ?case
  proof (cases "b = SDL")
    case False
    then show ?thesis using Cons.IH [of ?w1] by (simp add: p Let_def)
  next
    case True
    obtain r w2 where c: "CHECK_GL_ERRORS_sdl ?w1 = (r, w2)"
      by (cases "CHECK_GL_ERRORS_sdl ?w1")
    have w2: "stderr w2 = stderr w"
      using c by (auto simp: CHECK_GL_ERRORS_sdl_def glGetError_def split: if_splits)
    show ?thesis using True Cons.IH [of w2] w2
      by (cases r) (simp_all add: p Let_def c)
  qed
qed

lemma bind_render_target_stderr:
  "\<exists>evs. stderr (snd (bind_render_target b out w)) = stderr w @ evs
     \<and> filter is_size_changed evs = []"
  by (simp add: bind_render_target_def CHECK_GL_ERRORS_sdl_def CHECK_GL_ERRORS_glfw_def
      checkGLError_def glGetError_def split: sum.split)

lemma after_loop_stderr:
  "\<exists>evs. stderr (snd (after_loop b out reply (l, w))) = stderr w @ evs
     \<and> filter is_size_changed evs = []"
proof (cases l)
  case (Inl e)
  then show ?thesis by (simp add: after_loop_def)
next
  case (Inr u)
  show ?thesis
  proof (cases "framebuffer_status reply \<noteq> GL_FRAMEBUFFER_COMPLETE")
    case True
    then show ?thesis using Inr by (simp add: after_loop_def Let_def)
  next
    case False
    then show ?thesis
      using Inr bind_render_target_stderr [of b out "w\<lparr>gl := glBindTexture 0 (gl w)\<rparr>"]
      by (simp add: after_loop_def Let_def)
  qed
qed

lemma onUpdateOutput_stderr:
  "filter is_size_changed
     (drop (length (stderr w)) (stderr (snd (onUpdateOutput b cfg out reply w)))) =
   (if frame_width (capture w) \<noteq> width cfg \<or> frame_height (capture w) \<noteq> height cfg
    then [SizeChanged (width cfg) (height cfg)] else [])"
proof -
  let ?w2 = "generate_names cfg reply (log_size_change cfg w)"
  let ?l = "surface_loop b (width cfg) (height cfg) (slot_pairs reply) ?w2"
  obtain evs where evs: "stderr (snd (after_loop b out reply (fst ?l, snd ?l))) =
      stderr (snd ?l) @ evs" and quiet: "filter is_size_changed evs = []"
    using after_loop_stderr [of b out reply "fst ?l" "snd ?l"] by blast
  have "stderr (snd ?l) = stderr (log_size_change cfg w)"
    by (simp add: generate_names_def)
  then have "stderr (snd (onUpdateOutput b cfg out reply w)) =
      stderr (log_size_change cfg w) @ evs"
    using evs by (simp add: onUpdateOutput_parts)
  then show ?thesis using quiet by (simp add: log_size_change_def)
qed

lemma onUpdateOutput_new_objects:
  assumes "onUpdateOutput b cfg out reply w = (Inr r, w')"
      and "gl_contract (gl w) reply"
  shows "\<forall>(t, f) \<in> set (slot_pairs reply).
           t \<notin> dom (gl_textures (gl w)) \<and> t \<in> dom (gl_textures (gl w'))
           \<and> f \<notin> dom (gl_framebuffers (gl w)) \<and> f \<in> dom (gl_framebuffers (gl w'))"
  using onUpdateOutput_surfaces [OF assms] by (auto simp: dom_def)

text \<open>
  C5, as stated, fails.  The allocated ring of the SDL example (640 by 480, textures 1, 2,
  3) is negotiated again at 640 by 480: the call returns true, the object now holds the
  textures 4, 5, 6, and texture 4, which was no object before, has an image and is attached
  to the new framebuffer 4.
\<close>

theorem onUpdateOutput_same_size_reallocates:
  "frame_width (capture sdl_allocated) = width cfg_640x480
   \<and> frame_height (capture sdl_allocated) = height cfg_640x480
   \<and> textures (capture sdl_allocated) = Array3 1 2 3
   \<and> gl_textures (gl sdl_allocated) 4 = None
   \<and> fst (onUpdateOutput SDL cfg_640x480 out0 reply_456 sdl_allocated) =
       Inr (True, required_output SDL out0)
   \<and> textures (capture sdl_allocated_again) = Array3 4 5 6
   \<and> map_option tex_image (gl_textures (gl sdl_allocated_again) 4) =
       Some (Some (GL_RGBA, 640, 480))
   \<and> gl_framebuffers (gl sdl_allocated_again) 4 = Some 4"
  by (simp add: prod_eq_iff sdl_allocated_again_def world_defs eval_defs gl_defs alloc_defs)

text \<open>
  C5, amended.  \<^verbatim>\<open>onUpdateOutput\<close> allocates whatever the recorded dimensions are: its
  outcome, the context and the object it leaves are the same for any recorded width and
  height; the object holds the generated names afterwards; when the call returns, the
  generated textures and framebuffers are objects that were not there before.  The
  comparison of the requested with the recorded dimensions decides one thing, whether the
  size message is written to the error stream.
\<close>

theorem onUpdateOutput_allocates_regardless:
  "fst (onUpdateOutput b cfg out reply
          (w\<lparr>capture := (capture w)\<lparr>frame_width := x, frame_height := y\<rparr>\<rparr>)) =
     fst (onUpdateOutput b cfg out reply w)
   \<and> gl (snd (onUpdateOutput b cfg out reply
          (w\<lparr>capture := (capture w)\<lparr>frame_width := x, frame_height := y\<rparr>\<rparr>))) =
     gl (snd (onUpdateOutput b cfg out reply w))
   \<and> capture (snd (onUpdateOutput b cfg out reply
          (w\<lparr>capture := (capture w)\<lparr>frame_width := x, frame_height := y\<rparr>\<rparr>))) =
     capture (snd (onUpdateOutput b cfg out reply w))
   \<and> textures (capture (snd (onUpdateOutput b cfg out reply w))) = gen_textures reply
   \<and> fbos (capture (snd (onUpdateOutput b cfg out reply w))) = gen_framebuffers reply
   \<and> filter is_size_changed
        (drop (length (stderr w)) (stderr (snd (onUpdateOutput b cfg out reply w)))) =
      (if frame_width (capture w) \<noteq> width cfg \<or> frame_height (capture w) \<noteq> height cfg
       then [SizeChanged (width cfg) (height cfg)] else [])
   \<and> (fst (onUpdateOutput b cfg out reply w) = Inr r \<and> gl_contract (gl w) reply \<longrightarrow>
        (\<forall>(t, f) \<in> set (slot_pairs reply).
           t \<notin> dom (gl_textures (gl w))
           \<and> t \<in> dom (gl_textures (gl (snd (onUpdateOutput b cfg out reply w))))
           \<and> f \<notin> dom (gl_framebuffers (gl w))
           \<and> f \<in> dom (gl_framebuffers (gl (snd (onUpdateOutput b cfg out reply w))))))"
proof -
  let ?wd = "w\<lparr>capture := (capture w)\<lparr>frame_width := x, frame_height := y\<rparr>\<rparr>"
  have "gl ?wd = gl w" "frame_render_id (capture ?wd) = frame_render_id (capture w)"
    by simp_all
  then have a: "fst (onUpdateOutput b cfg out reply ?wd) = fst (onUpdateOutput b cfg out reply w)
     \<and> gl (snd (onUpdateOutput b cfg out reply ?wd)) =
        gl (snd (onUpdateOutput b cfg out reply w))"
    by (rule onUpdateOutput_gl_only)
  have c: "capture (snd (onUpdateOutput b cfg out reply ?wd)) =
     capture (snd (onUpdateOutput b cfg out reply w))"
    by (simp add: onUpdateOutput_capture)
  have d: "textures (capture (snd (onUpdateOutput b cfg out reply w))) = gen_textures reply
     \<and> fbos (capture (snd (onUpdateOutput b cfg out reply w))) = gen_framebuffers reply"
    by (simp add: onUpdateOutput_capture)
  have e: "fst (onUpdateOutput b cfg out reply w) = Inr r \<and> gl_contract (gl w) reply \<longrightarrow>
        (\<forall>(t, f) \<in> set (slot_pairs reply).
           t \<notin> dom (gl_textures (gl w))
           \<and> t \<in> dom (gl_textures (gl (snd (onUpdateOutput b cfg out reply w))))
           \<and> f \<notin> dom (gl_framebuffers (gl w))
           \<and> f \<in> dom (gl_framebuffers (gl (snd (onUpdateOutput b cfg out reply w)))))"
  proof
    assume h: "fst (onUpdateOutput b cfg out reply w) = Inr r \<and> gl_contract (gl w) reply"
    then have "onUpdateOutput b cfg out reply w =
        (Inr r, snd (onUpdateOutput b cfg out reply w))"
      by (simp add: prod_eq_iff)
    then show "\<forall>(t, f) \<in> set (slot_pairs reply).
           t \<notin> dom (gl_textures (gl w))
           \<and> t \<in> dom (gl_textures (gl (snd (onUpdateOutput b cfg out reply w))))
           \<and> f \<notin> dom (gl_framebuffers (gl w))
           \<and> f \<in> dom (gl_framebuffers (gl (snd (onUpdateOutput b cfg out reply w))))"
      using h onUpdateOutput_new_objects by blast
  qed
  show ?thesis
    using a c d e onUpdateOutput_stderr [of w b cfg out reply] by blast
qed

theorem onUpdateOutput_allocates_regardless_witness:
  "frame_width (capture sdl_allocated) = 640
   \<and> frame_height (capture sdl_allocated) = 480
   \<and> textures (capture sdl_allocated_again) = Array3 4 5 6
   \<and> fbos (capture sdl_allocated_again) = Array3 4 5 6
   \<and> filter is_size_changed
        (drop (length (stderr sdl_allocated)) (stderr sdl_allocated_again)) = []
   \<and> 5 \<notin> dom (gl_textures (gl sdl_allocated))
   \<and> 5 \<in> dom (gl_textures (gl sdl_allocated_again))
   \<and> 6 \<in> dom (gl_framebuffers (gl sdl_allocated_again))"
proof -
  note t = onUpdateOutput_allocates_regardless [where b = SDL and cfg = cfg_640x480
      and out = out0 and reply = reply_456 and w = sdl_allocated and x = 0 and y = 0
      and r = "(True, required_output SDL out0)"]
  have dims: "frame_width (capture sdl_allocated) = 640"
    "frame_height (capture sdl_allocated) = 480"
    by (simp_all add: sdl_allocated_def onUpdateOutput_capture cfg_640x480_def)
  have s: "snd (onUpdateOutput SDL cfg_640x480 out0 reply_456 sdl_allocated) =
      sdl_allocated_again"
    by (simp add: sdl_allocated_again_def)
  have f: "fst (onUpdateOutput SDL cfg_640x480 out0 reply_456 sdl_allocated) =
      Inr (True, required_output SDL out0)"
    by (simp add: sdl_allocated_again_outcome)
  show ?thesis
    using t sdl_allocated_contract unfolding s f
    by (auto simp: dims slot_pairs_def reply_456_def cfg_640x480_def)
qed

end
